theory Spec2Isabelle
  imports Main "HOL-Library.Word" "HOL-Library.Multiset"
begin

unbundle bit_operations_syntax

section \<open>Values of the host language\<close>

text \<open>
  The client is written in TypeScript and handles values of type \<open>unknown\<close>: request
  bodies, decoded responses and cached data. They are modelled by the datatype below.
  Numbers are the integers (status codes, counts, millisecond instants); strings are
  sequences of 8-bit code units. \<open>JBigInt\<close> stands for the values that
  \<open>JSON.stringify\<close> refuses to encode.
\<close>

datatype blob = Blob (blob_content: string) (blob_type: string)

datatype jsfile = File (file_name: string) (file_content: string) (file_type: string)

datatype form_value = FormString string | FormFile jsfile

type_synonym form_data = "(string \<times> form_value) list"

datatype jsval =
    JUndefined
  | JNull
  | JBool bool
  | JNum int
  | JBigInt int
  | JStr string
  | JArr "jsval list"
  | JObj "(string \<times> jsval) list"
  | JBlob blob
  | JFile jsfile
  | JFormData form_data

text \<open>The class \<open>TFetchError extends Error\<close>; \<open>originalError\<close> is never set by the client.\<close>

datatype TFetchError = TFetchError (message: string) (status: "int option")

text \<open>
  A thrown value is an \<open>Error\<close> object. The client only distinguishes instances of
  \<open>TFetchError\<close> from all other errors, and reads the message.
\<close>

datatype thrown = Error string | Thrown TFetchError

fun error_message :: "thrown \<Rightarrow> string" where
  "error_message (Error m) = m"
| "error_message (Thrown e) = message e"

subsection \<open>Strings\<close>

fun join :: "string \<Rightarrow> string list \<Rightarrow> string" where
  "join sep [] = []"
| "join sep [x] = x"
| "join sep (x # y # ys) = x @ sep @ join sep (y # ys)"

definition digit :: "nat \<Rightarrow> char" where
  "digit d = ''0123456789abcdef'' ! d"

fun show_nat :: "nat \<Rightarrow> string" where
  "show_nat n = (if n < 10 then [digit n] else show_nat (n div 10) @ [digit (n mod 10)])"

declare show_nat.simps [simp del]

definition show_int :: "int \<Rightarrow> string" where
  "show_int i = (if i < 0 then ''-'' @ show_nat (nat (- i)) else show_nat (nat i))"

definition lower_char :: "char \<Rightarrow> char" where
  "lower_char c = (let n = (of_char c :: nat) in if 65 \<le> n \<and> n \<le> 90 then char_of (n + 32) else c)"

definition upper_char :: "char \<Rightarrow> char" where
  "upper_char c = (let n = (of_char c :: nat) in if 97 \<le> n \<and> n \<le> 122 then char_of (n - 32) else c)"

text \<open>
  \<open>toLowerCase\<close> and \<open>toUpperCase\<close> on the ASCII letters. The client lower-cases header
  names to compare them with ASCII constants and upper-cases the method, which every
  caller passes as one of the literals \<open>GET\<close>, \<open>POST\<close>, \<open>PUT\<close>, \<open>PATCH\<close>,
  \<open>DELETE\<close>, \<open>HEAD\<close>.
\<close>

definition toLowerCase :: "string \<Rightarrow> string" where
  "toLowerCase s = map lower_char s"

definition toUpperCase :: "string \<Rightarrow> string" where
  "toUpperCase s = map upper_char s"

subsection \<open>Coercions\<close>

text \<open>\<open>if (v)\<close>: the falsy values are \<open>undefined\<close>, \<open>null\<close>, \<open>false\<close>, \<open>0\<close> and \<open>""\<close>.\<close>

fun truthy :: "jsval \<Rightarrow> bool" where
  "truthy JUndefined = False"
| "truthy JNull = False"
| "truthy (JBool b) = b"
| "truthy (JNum n) = (n \<noteq> 0)"
| "truthy (JBigInt n) = (n \<noteq> 0)"
| "truthy (JStr s) = (s \<noteq> [])"
| "truthy _ = True"

text \<open>\<open>String(v)\<close>, which is also \<open>v.toString()\<close> wherever \<open>v\<close> is neither null nor undefined.\<close>

fun String :: "jsval \<Rightarrow> string"
  and String_elems :: "jsval list \<Rightarrow> string list" where
  "String JUndefined = ''undefined''"
| "String JNull = ''null''"
| "String (JBool b) = (if b then ''true'' else ''false'')"
| "String (JNum n) = show_int n"
| "String (JBigInt n) = show_int n"
| "String (JStr s) = s"
| "String (JArr xs) = join '','' (String_elems xs)"
| "String (JObj kvs) = ''[object Object]''"
| "String (JBlob b) = ''[object Blob]''"
| "String (JFile f) = ''[object File]''"
| "String (JFormData fd) = ''[object FormData]''"
| "String_elems [] = []"
| "String_elems (x # xs) =
     (if x = JNull \<or> x = JUndefined then [] else String x) # String_elems xs"

fun form_value_String :: "form_value \<Rightarrow> string" where
  "form_value_String (FormString s) = s"
| "form_value_String (FormFile f) = ''[object File]''"

subsection \<open>JSON.stringify\<close>

definition hex2 :: "nat \<Rightarrow> string" where
  "hex2 n = [digit (n div 16), digit (n mod 16)]"

definition quote_char :: "char \<Rightarrow> string" where
  "quote_char c =
     (let n = (of_char c :: nat) in
      if n = 34 then [CHR 0x5C, CHR 0x22]
      else if n = 92 then [CHR 0x5C, CHR 0x5C]
      else if n = 8 then [CHR 0x5C, CHR ''b'']
      else if n = 12 then [CHR 0x5C, CHR ''f'']
      else if n = 10 then [CHR 0x5C, CHR ''n'']
      else if n = 13 then [CHR 0x5C, CHR ''r'']
      else if n = 9 then [CHR 0x5C, CHR ''t'']
      else if n < 32 then [CHR 0x5C, CHR ''u'', CHR ''0'', CHR ''0''] @ hex2 n
      else [c])"

definition quote :: "string \<Rightarrow> string" where
  "quote s = [CHR 0x22] @ concat (map quote_char s) @ [CHR 0x22]"

text \<open>
  \<open>JSON.stringify(v)\<close>: \<open>Inl\<close> when it throws, \<open>Inr None\<close> when it returns
  \<open>undefined\<close>. Inside an array \<open>undefined\<close> is written \<open>null\<close>; inside an object
  the property is left out. A blob, a file and a form container have no enumerable
  property of their own.
\<close>

fun JSON_stringify :: "jsval \<Rightarrow> thrown + string option"
  and stringify_elems :: "jsval list \<Rightarrow> thrown + string list"
  and stringify_props :: "(string \<times> jsval) list \<Rightarrow> thrown + string list" where
  "JSON_stringify JUndefined = Inr None"
| "JSON_stringify JNull = Inr (Some ''null'')"
| "JSON_stringify (JBool b) = Inr (Some (if b then ''true'' else ''false''))"
| "JSON_stringify (JNum n) = Inr (Some (show_int n))"
| "JSON_stringify (JBigInt n) = Inl (Error ''Do not know how to serialize a BigInt'')"
| "JSON_stringify (JStr s) = Inr (Some (quote s))"
| "JSON_stringify (JArr xs) =
     (case stringify_elems xs of
        Inl e \<Rightarrow> Inl e
      | Inr ss \<Rightarrow> Inr (Some (''['' @ join '','' ss @ '']'')))"
| "JSON_stringify (JObj kvs) =
     (case stringify_props kvs of
        Inl e \<Rightarrow> Inl e
      | Inr ss \<Rightarrow> Inr (Some (''{'' @ join '','' ss @ ''}'')))"
| "JSON_stringify (JBlob b) = Inr (Some ''{}'')"
| "JSON_stringify (JFile f) = Inr (Some ''{}'')"
| "JSON_stringify (JFormData fd) = Inr (Some ''{}'')"
| "stringify_elems [] = Inr []"
| "stringify_elems (x # xs) =
     (case JSON_stringify x of
        Inl e \<Rightarrow> Inl e
      | Inr s \<Rightarrow>
          (case stringify_elems xs of
             Inl e \<Rightarrow> Inl e
           | Inr ss \<Rightarrow> Inr ((case s of None \<Rightarrow> ''null'' | Some t \<Rightarrow> t) # ss)))"
| "stringify_props [] = Inr []"
| "stringify_props (kv # kvs) =
     (case JSON_stringify (snd kv) of
        Inl e \<Rightarrow> Inl e
      | Inr s \<Rightarrow>
          (case stringify_props kvs of
             Inl e \<Rightarrow> Inl e
           | Inr ss \<Rightarrow>
               Inr ((case s of None \<Rightarrow> [] | Some t \<Rightarrow> [quote (fst kv) @ '':'' @ t]) @ ss)))"


section \<open>Content wrappers\<close>

text \<open>
  \<open>ContentWrapper\<close> is \<open>{type, data}\<close>. At run time the type tag is any string, or
  missing (\<open>None\<close>), and a missing \<open>data\<close> reads as \<open>undefined\<close>; the client checks
  for both.
\<close>

record ContentWrapper =
  body_type :: "string option"
  body_data :: jsval

text \<open>\<open>typeof v === "object"\<close>, which holds of \<open>null\<close> too.\<close>

fun typeof_object :: "jsval \<Rightarrow> bool" where
  "typeof_object JNull = True"
| "typeof_object (JArr xs) = True"
| "typeof_object (JObj kvs) = True"
| "typeof_object (JBlob b) = True"
| "typeof_object (JFile f) = True"
| "typeof_object (JFormData fd) = True"
| "typeof_object _ = False"

fun instanceof_FormData :: "jsval \<Rightarrow> bool" where
  "instanceof_FormData (JFormData fd) = True"
| "instanceof_FormData _ = False"

text \<open>\<open>File\<close> is a subclass of \<open>Blob\<close>.\<close>

fun instanceof_Blob :: "jsval \<Rightarrow> bool" where
  "instanceof_Blob (JBlob b) = True"
| "instanceof_Blob (JFile f) = True"
| "instanceof_Blob _ = False"

text \<open>\<open>Object.entries(v)\<close> for a body payload: the own enumerable properties.\<close>

fun Object_entries :: "jsval \<Rightarrow> thrown + (string \<times> jsval) list" where
  "Object_entries JUndefined = Inl (Error ''Cannot convert undefined or null to object'')"
| "Object_entries JNull = Inl (Error ''Cannot convert undefined or null to object'')"
| "Object_entries (JObj kvs) = Inr kvs"
| "Object_entries (JArr xs) = Inr (zip (map show_nat [0..<length xs]) xs)"
| "Object_entries (JStr s) = Inr (zip (map show_nat [0..<length s]) (map (\<lambda>c. JStr [c]) s))"
| "Object_entries _ = Inr []"

text \<open>One turn of the loop that fills the \<open>FormData\<close> of a \<open>form\<close> body.\<close>

fun form_append :: "string \<Rightarrow> jsval \<Rightarrow> form_value" where
  "form_append key (JFile f) = FormFile f"
| "form_append key (JBlob b) = FormFile (File key (blob_content b) (blob_type b))"
| "form_append key v = FormString (String v)"

definition invalid_body :: thrown where
  "invalid_body = Thrown (TFetchError ''Invalid body: type and data are required'' (Some 400))"

definition prepareBody :: "ContentWrapper option \<Rightarrow> thrown + ContentWrapper" where
  "prepareBody b =
     (case b of
        None \<Rightarrow> Inl invalid_body
      | Some body \<Rightarrow>
          (case body_type body of
             None \<Rightarrow> Inl invalid_body
           | Some t \<Rightarrow>
               if t = [] \<or> body_data body = JUndefined then Inl invalid_body
               else if t = ''form'' then
                 (if typeof_object (body_data body) \<and> \<not> instanceof_FormData (body_data body) then
                    (case Object_entries (body_data body) of
                       Inl e \<Rightarrow> Inl e
                     | Inr es \<Rightarrow>
                         Inr \<lparr>body_type = Some ''form'',
                              body_data = JFormData (map (\<lambda>(key, v). (key, form_append key v)) es)\<rparr>)
                  else Inr body)
               else if t = ''multipart'' then
                 (if \<not> instanceof_FormData (body_data body) then
                    Inl (Thrown (TFetchError ''Multipart data must be a FormData instance'' (Some 400)))
                  else Inr body)
               else if t = ''json'' then
                 (if body_data body = JNull \<or> body_data body = JUndefined then
                    Inl (Thrown (TFetchError ''JSON body cannot be null or undefined'' (Some 400)))
                  else Inr body)
               else if t = ''text'' then
                 Inr \<lparr>body_type = Some ''text'',
                      body_data =
                        (if body_data body \<noteq> JNull \<and> body_data body \<noteq> JUndefined
                         then JStr (String (body_data body)) else JStr [])\<rparr>
               else if t = ''blob'' then
                 (if \<not> instanceof_Blob (body_data body) then
                    (case JSON_stringify (body_data body) of
                       Inl e \<Rightarrow> Inl (Thrown (TFetchError ''Unable to convert data to Blob'' (Some 400)))
                     | Inr s \<Rightarrow>
                         Inr \<lparr>body_type = Some ''blob'',
                              body_data =
                                JBlob (Blob (case s of None \<Rightarrow> ''undefined'' | Some j \<Rightarrow> j)
                                         ''application/json'')\<rparr>)
                  else Inr body)
               else Inl (Thrown (TFetchError (''Unsupported content type: '' @ t) (Some 400)))))"

definition serializeBody :: "ContentWrapper \<Rightarrow> thrown + jsval" where
  "serializeBody body =
     (if body_data body = JNull \<or> body_data body = JUndefined then Inr JUndefined
      else if body_type body = Some ''json'' then
        (case JSON_stringify (body_data body) of
           Inl e \<Rightarrow>
             Inl (Thrown (TFetchError (''Failed to serialize JSON data: '' @ error_message e) (Some 400)))
         | Inr s \<Rightarrow> Inr (case s of None \<Rightarrow> JUndefined | Some j \<Rightarrow> JStr j))
      else if body_type body = Some ''form'' \<or> body_type body = Some ''multipart'' then
        Inr (body_data body)
      else if body_type body = Some ''text'' then Inr (JStr (String (body_data body)))
      else if body_type body = Some ''blob'' then Inr (body_data body)
      else
        Inl (Thrown (TFetchError
              (''Cannot serialize content type: '' @
                 (case body_type body of None \<Rightarrow> ''undefined'' | Some t \<Rightarrow> t))
              (Some 400))))"

text \<open>The table of \<open>getHeaders\<close>; a tag outside the table gives the empty record.\<close>

definition getHeaders_table :: "(string \<times> string) list" where
  "getHeaders_table =
     [(''json'', ''application/json''),
      (''form'', ''application/x-www-form-urlencoded''),
      (''text'', ''text/plain''),
      (''blob'', ''application/octet-stream''),
      (''multipart'', ''multipart/form-data''),
      (''xml'', ''application/xml''),
      (''html'', ''text/html'')]"

section \<open>Headers\<close>

text \<open>
  A \<open>Headers\<close> object holds one value per lower-cased name. \<open>HeadersInit\<close> is a plain
  record of names and values, an array of name and value pairs, or a \<open>Headers\<close> object.
  Header names and values are taken to be valid, so that \<open>new Headers\<close> does not throw; the
  order in which a \<open>Headers\<close> object lists its names is not read by the client.
\<close>

type_synonym Headers = "(string \<times> string) list"

datatype HeadersInit =
    HRecord "(string \<times> string) list"
  | HPairs "(string \<times> string) list"
  | HHeaders Headers

fun Headers_set :: "string \<Rightarrow> string \<Rightarrow> Headers \<Rightarrow> Headers" where
  "Headers_set k v [] = [(k, v)]"
| "Headers_set k v (p # h) = (if fst p = k then (k, v) # h else p # Headers_set k v h)"

fun Headers_append :: "string \<Rightarrow> string \<Rightarrow> Headers \<Rightarrow> Headers" where
  "Headers_append k v [] = [(k, v)]"
| "Headers_append k v (p # h) =
     (if fst p = k then (k, snd p @ '', '' @ v) # h else p # Headers_append k v h)"

fun new_Headers :: "HeadersInit \<Rightarrow> Headers" where
  "new_Headers (HRecord kvs) = foldl (\<lambda>h (k, v). Headers_append (toLowerCase k) v h) [] kvs"
| "new_Headers (HPairs kvs) = foldl (\<lambda>h (k, v). Headers_append (toLowerCase k) v h) [] kvs"
| "new_Headers (HHeaders h) = h"

definition getHeaders :: "string option \<Rightarrow> HeadersInit" where
  "getHeaders type =
     (case type of
        None \<Rightarrow> HRecord []
      | Some t \<Rightarrow>
          (case map_of getHeaders_table t of
             None \<Rightarrow> HRecord []
           | Some mime \<Rightarrow> HRecord [(''Content-Type'', mime)]))"

text \<open>\<open>mergeHeaders(...sources)\<close>: an absent source is skipped, a later source overrides.\<close>

definition mergeHeaders :: "HeadersInit option list \<Rightarrow> Headers" where
  "mergeHeaders sources =
     foldl (\<lambda>headers src.
              case src of
                None \<Rightarrow> headers
              | Some s \<Rightarrow> foldl (\<lambda>h (k, v). Headers_set k v h) headers (new_Headers s))
       [] sources"

section \<open>Cache keys\<close>

datatype UrlOrString = UString string | URL string

fun toString :: "UrlOrString \<Rightarrow> string" where
  "toString (UString s) = s"
| "toString (URL href) = href"

text \<open>
  \<open>Array.prototype.sort(cmp)\<close> is stable: an element goes before the first element of
  the sorted rest that it does not follow.
\<close>

fun insert_by :: "('a \<Rightarrow> 'a \<Rightarrow> int) \<Rightarrow> 'a \<Rightarrow> 'a list \<Rightarrow> 'a list" where
  "insert_by cmp x [] = [x]"
| "insert_by cmp x (y # ys) = (if cmp x y \<le> 0 then x # y # ys else y # insert_by cmp x ys)"

definition Array_sort :: "('a \<Rightarrow> 'a \<Rightarrow> int) \<Rightarrow> 'a list \<Rightarrow> 'a list" where
  "Array_sort cmp xs = foldr (insert_by cmp) xs []"

text \<open>
  \<open>Object.entries(headers)\<close> lists the own enumerable properties: the entries of a plain
  record, the indices of an array of pairs, and nothing for a \<open>Headers\<close> object, which keeps
  its list in an internal slot.
\<close>

fun Object_entries_headers :: "HeadersInit \<Rightarrow> (string \<times> string) list" where
  "Object_entries_headers (HRecord kvs) = kvs"
| "Object_entries_headers (HPairs kvs) =
     zip (map show_nat [0..<length kvs]) (map (\<lambda>(k, v). k @ '','' @ v) kvs)"
| "Object_entries_headers (HHeaders h) = []"

definition essential_entries ::
  "(string \<Rightarrow> string \<Rightarrow> int) \<Rightarrow> HeadersInit \<Rightarrow> (string \<times> string) list" where
  "essential_entries localeCompare headers =
     Array_sort (\<lambda>a b. localeCompare (fst a) (fst b))
       (filter (\<lambda>(key, value).
                  toLowerCase key = ''authorization'' \<or> toLowerCase key = ''content-type'')
          (Object_entries_headers headers))"

definition essentialHeaders ::
  "(string \<Rightarrow> string \<Rightarrow> int) \<Rightarrow> HeadersInit option \<Rightarrow> string" where
  "essentialHeaders localeCompare headers =
     (case headers of
        None \<Rightarrow> []
      | Some h \<Rightarrow> join ''|'' (map (\<lambda>(key, value). key @ '':'' @ value) (essential_entries localeCompare h)))"

text \<open>
  \<open>hashCode\<close>: \<open>hash << 5\<close> and \<open>hash & hash\<close> work on 32-bit integers, so the loop
  computes in \<open>32 word\<close>; \<open>Math.abs\<close> is taken of the signed reading.
\<close>

definition hashCode :: "string \<Rightarrow> int" where
  "hashCode str =
     \<bar>sint (foldl (\<lambda>hash c. let h = push_bit 5 hash - hash + of_nat (of_char c) in h AND h)
              (0 :: 32 word) str)\<bar>"

definition bodyPart :: "jsval \<Rightarrow> string" where
  "bodyPart body =
     (if truthy body then
        (case body of
           JFormData fd \<Rightarrow> join ''|'' (map (\<lambda>(k, v). k @ '':'' @ form_value_String v) fd)
         | _ \<Rightarrow> show_int (hashCode (String body)))
      else [])"

text \<open>
  \<open>generateCacheKey(url, method, headers, body)\<close>; \<open>localeCompare\<close> is the collation of
  the host. An absent body is \<open>JUndefined\<close>.
\<close>

definition generateCacheKey ::
  "(string \<Rightarrow> string \<Rightarrow> int) \<Rightarrow> UrlOrString \<Rightarrow> string \<Rightarrow> HeadersInit option \<Rightarrow> jsval \<Rightarrow> string" where
  "generateCacheKey localeCompare url method headers body =
     toUpperCase method @ ''|'' @ toString url @ ''|'' @
     essentialHeaders localeCompare headers @ ''|'' @ bodyPart body"

section \<open>Configuration, transport and state\<close>

text \<open>
  \<open>TFetchClientOptions\<close> as the constructor leaves it: every field but the retry callback
  is filled in. \<open>retry_onRetry\<close> tells whether a callback is configured; the callback
  returns normally.
\<close>

datatype DeleteHandling = DeleteEmpty | DeleteStatus | DeleteJson

record TFetchClientOptions =
  debug :: bool
  default_headers :: HeadersInit
  deleteHandling :: DeleteHandling
  retry_count :: int
  retry_delay :: int
  retry_onRetry :: bool
  cache_enabled :: bool
  cache_maxAge :: int
  cache_maxCachedEntries :: int

text \<open>
  The part of a \<open>Response\<close> the client reads: \<open>ok\<close>, \<open>status\<close>,
  \<open>headers.get("Content-Length")\<close>, and what \<open>text()\<close> and \<open>json()\<close> settle to
  (\<open>Inl\<close> when the promise rejects).
\<close>

record Response =
  res_ok :: bool
  res_status :: int
  res_content_length :: "string option"
  res_text :: "thrown + string"
  res_json :: "thrown + jsval"

datatype outcome = Rejects thrown | Resolves Response

record RequestInit =
  init_method :: "string option"
  init_headers :: Headers
  init_body :: jsval

text \<open>
  The host: \<open>fetch url init n\<close> is how the \<open>n\<close>-th call of \<open>fetch\<close> made by the client
  ends, \<open>Date_now n\<close> is the \<open>n\<close>-th reading of the clock, \<open>localeCompare\<close> the
  collation of strings.
\<close>

record runtime =
  fetch :: "string \<Rightarrow> RequestInit \<Rightarrow> nat \<Rightarrow> outcome"
  Date_now :: "nat \<Rightarrow> int"
  localeCompare :: "string \<Rightarrow> string \<Rightarrow> int"

record CacheEntry =
  entry_data :: jsval
  timestamp :: int
  expiresAt :: int

text \<open>
  The cache is a \<open>Map\<close>: one entry per key, listed in insertion order. The state of a
  client is its cache; the counters record what it has done to the host: calls of
  \<open>fetch\<close>, reads of a response body, readings of the clock, calls of the retry callback
  and milliseconds waited between attempts.
\<close>

type_synonym Cache = "(string \<times> CacheEntry) list"

fun Map_set :: "string \<Rightarrow> 'v \<Rightarrow> (string \<times> 'v) list \<Rightarrow> (string \<times> 'v) list" where
  "Map_set k v [] = [(k, v)]"
| "Map_set k v (p # m) = (if fst p = k then (k, v) # m else p # Map_set k v m)"

definition Map_delete :: "string \<Rightarrow> (string \<times> 'v) list \<Rightarrow> (string \<times> 'v) list" where
  "Map_delete k m = filter (\<lambda>p. fst p \<noteq> k) m"

record world =
  cache :: Cache
  fetch_calls :: nat
  body_reads :: nat
  clock_reads :: nat
  onRetry_calls :: nat
  slept :: int

record Result =
  data :: jsval
  error :: "TFetchError option"

section \<open>The request executor\<close>

text \<open>
  The body of the \<open>try\<close> block of \<open>handleRequest\<close>, given how the call of
  \<open>request()\<close> ended: \<open>Inr\<close> is a \<open>return\<close>, \<open>Inl\<close> a throw that the \<open>catch\<close>
  block receives. The number counts the reads of the response body.
\<close>

definition try_block :: "TFetchClientOptions \<Rightarrow> string option \<Rightarrow> outcome \<Rightarrow> (thrown + Result) \<times> nat" where
  "try_block cfg method out =
     (case out of
        Rejects e \<Rightarrow> (Inl e, 0)
      | Resolves res \<Rightarrow>
          if \<not> res_ok res then
            (case res_text res of
               Inl e \<Rightarrow> (Inl e, 1)
             | Inr errorText \<Rightarrow>
                 (Inr \<lparr>data = JNull, error = Some (TFetchError errorText (Some (res_status res)))\<rparr>, 1))
          else if method = Some ''DELETE'' \<and> res_content_length res = Some ''0'' then
            (case deleteHandling cfg of
               DeleteEmpty \<Rightarrow> (Inr \<lparr>data = JNull, error = None\<rparr>, 0)
             | DeleteStatus \<Rightarrow> (Inr \<lparr>data = JNum (res_status res), error = None\<rparr>, 0)
             | DeleteJson \<Rightarrow>
                 (case res_json res of
                    Inr v \<Rightarrow> (Inr \<lparr>data = v, error = None\<rparr>, 1)
                  | Inl e \<Rightarrow> (Inr \<lparr>data = JNull, error = None\<rparr>, 1)))
          else
            (case res_json res of
               Inl e \<Rightarrow> (Inl e, 1)
             | Inr v \<Rightarrow> (Inr \<lparr>data = v, error = None\<rparr>, 1)))"

definition final_error :: "thrown \<Rightarrow> TFetchError" where
  "final_error lastError =
     TFetchError
       (if error_message lastError = [] then ''Request failed after max retries''
        else error_message lastError)
       (case lastError of Thrown e \<Rightarrow> status e | Error m \<Rightarrow> None)"

text \<open>The \<open>while\<close> loop of \<open>handleRequest\<close>, from the current value of \<open>attempts\<close>.\<close>

function handleRequest_loop ::
  "TFetchClientOptions \<Rightarrow> (nat \<Rightarrow> outcome) \<Rightarrow> string option \<Rightarrow> int \<Rightarrow> world \<Rightarrow> Result \<times> world" where
  "handleRequest_loop cfg request method attempts w =
     (if attempts \<le> retry_count cfg then
        (case try_block cfg method (request (fetch_calls w)) of
           (Inr result, reads) \<Rightarrow>
             (result, w\<lparr>fetch_calls := fetch_calls w + 1, body_reads := body_reads w + reads\<rparr>)
         | (Inl lastError, reads) \<Rightarrow>
             if attempts < retry_count cfg then
               handleRequest_loop cfg request method (attempts + 1)
                 (w\<lparr>fetch_calls := fetch_calls w + 1, body_reads := body_reads w + reads,
                    onRetry_calls := onRetry_calls w + (if retry_onRetry cfg then 1 else 0),
                    slept := slept w + retry_delay cfg\<rparr>)
             else
               (\<lparr>data = JNull, error = Some (final_error lastError)\<rparr>,
                w\<lparr>fetch_calls := fetch_calls w + 1, body_reads := body_reads w + reads\<rparr>))
      else (\<lparr>data = JNull, error = Some (TFetchError ''Max retries exceeded'' None)\<rparr>, w))"
  by pat_completeness auto
termination
  by (relation "measure (\<lambda>(cfg, request, method, attempts, w). nat (retry_count cfg - attempts))") auto

declare handleRequest_loop.simps [simp del]

definition handleRequest ::
  "TFetchClientOptions \<Rightarrow> (nat \<Rightarrow> outcome) \<Rightarrow> string option \<Rightarrow> world \<Rightarrow> Result \<times> world" where
  "handleRequest cfg request method w = handleRequest_loop cfg request method 0 w"

section \<open>The cache\<close>

definition entriesToDelete :: "Cache \<Rightarrow> string list" where
  "entriesToDelete c =
     map fst (take (length c div 4)
               (Array_sort (\<lambda>a b. timestamp (snd a) - timestamp (snd b)) c))"

definition cleanupCache :: "TFetchClientOptions \<Rightarrow> world \<Rightarrow> world" where
  "cleanupCache cfg w =
     (let maxEntries = cache_maxCachedEntries cfg in
      if int (length (cache w)) \<ge> maxEntries then
        w\<lparr>cache := foldl (\<lambda>c key. Map_delete key c) (cache w) (entriesToDelete (cache w))\<rparr>
      else w)"

definition saveToCache ::
  "TFetchClientOptions \<Rightarrow> runtime \<Rightarrow> string \<Rightarrow> jsval \<Rightarrow> int option \<Rightarrow> world \<Rightarrow> world" where
  "saveToCache cfg rt key d customMaxAge w =
     (let w1 = cleanupCache cfg w;
          maxAge = (case customMaxAge of Some a \<Rightarrow> a | None \<Rightarrow> cache_maxAge cfg)
      in w1\<lparr>cache :=
               Map_set key
                 \<lparr>entry_data = d,
                  timestamp = Date_now rt (clock_reads w1),
                  expiresAt = Date_now rt (clock_reads w1 + 1) + maxAge\<rparr>
                 (cache w1),
             clock_reads := clock_reads w1 + 2\<rparr>)"

definition getFromCache :: "runtime \<Rightarrow> string \<Rightarrow> world \<Rightarrow> jsval \<times> world" where
  "getFromCache rt key w =
     (case map_of (cache w) key of
        None \<Rightarrow> (JNull, w)
      | Some entry \<Rightarrow>
          (let now = Date_now rt (clock_reads w) in
           if expiresAt entry \<noteq> 0 \<and> now > expiresAt entry then
             (JNull, w\<lparr>cache := Map_delete key (cache w), clock_reads := clock_reads w + 1\<rparr>)
           else (entry_data entry, w\<lparr>clock_reads := clock_reads w + 1\<rparr>)))"

section \<open>The public operations\<close>

record RequestCacheOptions =
  opt_maxAge :: "int option"
  opt_enabled :: "bool option"

record RequestOptions =
  opt_headers :: "HeadersInit option"
  opt_cache :: "RequestCacheOptions option"

text \<open>\<open>options?.headers ?? {}\<close>\<close>

definition options_headers :: "RequestOptions option \<Rightarrow> HeadersInit" where
  "options_headers options =
     (case options of
        None \<Rightarrow> HRecord []
      | Some opts \<Rightarrow> (case opt_headers opts of None \<Rightarrow> HRecord [] | Some h \<Rightarrow> h))"

text \<open>\<open>options?.cache?.enabled ?? this.config.cache?.enabled\<close>\<close>

definition options_cacheEnabled :: "TFetchClientOptions \<Rightarrow> RequestOptions option \<Rightarrow> bool" where
  "options_cacheEnabled cfg options =
     (case options of
        None \<Rightarrow> cache_enabled cfg
      | Some opts \<Rightarrow>
          (case opt_cache opts of
             None \<Rightarrow> cache_enabled cfg
           | Some c \<Rightarrow> (case opt_enabled c of None \<Rightarrow> cache_enabled cfg | Some b \<Rightarrow> b)))"

text \<open>\<open>options?.cache?.maxAge ?? this.config.cache?.maxAge\<close>\<close>

definition options_cacheMaxAge :: "TFetchClientOptions \<Rightarrow> RequestOptions option \<Rightarrow> int" where
  "options_cacheMaxAge cfg options =
     (case options of
        None \<Rightarrow> cache_maxAge cfg
      | Some opts \<Rightarrow>
          (case opt_cache opts of
             None \<Rightarrow> cache_maxAge cfg
           | Some c \<Rightarrow> (case opt_maxAge c of None \<Rightarrow> cache_maxAge cfg | Some a \<Rightarrow> a)))"

text \<open>
  The six operations return a promise of a \<open>Result\<close>. \<open>get\<close>, \<open>delete\<close> and \<open>head\<close>
  have no statement that throws outside \<open>handleRequest\<close>; \<open>post\<close>, \<open>put\<close> and
  \<open>patch\<close> read \<open>body.type\<close> and call \<open>prepareBody\<close> and \<open>serializeBody\<close> first, so
  their promise may reject (\<open>Inl\<close>).
\<close>

definition get ::
  "TFetchClientOptions \<Rightarrow> runtime \<Rightarrow> UrlOrString \<Rightarrow> RequestOptions option \<Rightarrow> world \<Rightarrow> Result \<times> world" where
  "get cfg rt url options w =
     (let mergedHeaders = mergeHeaders [Some (default_headers cfg), Some (options_headers options)];
          ckey = generateCacheKey (localeCompare rt) url ''GET'' (Some (HHeaders mergedHeaders)) JUndefined;
          cacheEnabled = options_cacheEnabled cfg options;
          cacheMaxAge = options_cacheMaxAge cfg options;
          (cached, w1) = (if cacheEnabled then getFromCache rt ckey w else (JNull, w))
      in if cacheEnabled \<and> truthy cached then (\<lparr>data = cached, error = None\<rparr>, w1)
         else
           (let (result, w2) =
                  handleRequest cfg
                    (fetch rt (toString url)
                       \<lparr>init_method = None, init_headers = mergedHeaders, init_body = JUndefined\<rparr>)
                    (Some ''GET'') w1
            in (result,
                if cacheEnabled \<and> truthy (data result)
                then saveToCache cfg rt ckey (data result) (Some cacheMaxAge) w2 else w2)))"

definition post ::
  "TFetchClientOptions \<Rightarrow> runtime \<Rightarrow> UrlOrString \<Rightarrow> ContentWrapper option \<Rightarrow> RequestOptions option \<Rightarrow>
     world \<Rightarrow> thrown + Result \<times> world" where
  "post cfg rt url body options w =
     (case body of
        None \<Rightarrow> Inl (Error ''Cannot read properties of undefined (reading 'type')'')
      | Some b \<Rightarrow>
          (let mergedHeaders =
                 mergeHeaders [Some (default_headers cfg), Some (getHeaders (body_type b)),
                               Some (options_headers options)]
           in case prepareBody body of
                Inl e \<Rightarrow> Inl e
              | Inr actualBody \<Rightarrow>
                  (case serializeBody actualBody of
                     Inl e \<Rightarrow> Inl e
                   | Inr serialized \<Rightarrow>
                       (let ckey = generateCacheKey (localeCompare rt) url ''POST''
                                     (Some (HHeaders mergedHeaders)) serialized;
                            cacheEnabled = options_cacheEnabled cfg options;
                            cacheMaxAge = options_cacheMaxAge cfg options;
                            (cached, w1) = (if cacheEnabled then getFromCache rt ckey w else (JNull, w))
                        in if cacheEnabled \<and> truthy cached then Inr (\<lparr>data = cached, error = None\<rparr>, w1)
                           else
                             (let (result, w2) =
                                    handleRequest cfg
                                      (fetch rt (toString url)
                                         \<lparr>init_method = Some ''POST'', init_headers = mergedHeaders,
                                          init_body = serialized\<rparr>)
                                      (Some ''POST'') w1
                              in Inr (result,
                                      if cacheEnabled \<and> truthy (data result)
                                      then saveToCache cfg rt ckey (data result) (Some cacheMaxAge) w2
                                      else w2))))))"

definition put ::
  "TFetchClientOptions \<Rightarrow> runtime \<Rightarrow> UrlOrString \<Rightarrow> ContentWrapper option \<Rightarrow> RequestOptions option \<Rightarrow>
     world \<Rightarrow> thrown + Result \<times> world" where
  "put cfg rt url body options w =
     (case body of
        None \<Rightarrow> Inl (Error ''Cannot read properties of undefined (reading 'type')'')
      | Some b \<Rightarrow>
          (let mergedHeaders =
                 mergeHeaders [Some (default_headers cfg), Some (getHeaders (body_type b)),
                               Some (options_headers options)]
           in case prepareBody body of
                Inl e \<Rightarrow> Inl e
              | Inr actualBody \<Rightarrow>
                  (case serializeBody actualBody of
                     Inl e \<Rightarrow> Inl e
                   | Inr serialized \<Rightarrow>
                       (let ckey = generateCacheKey (localeCompare rt) url ''PUT''
                                     (Some (HHeaders mergedHeaders)) serialized;
                            cacheEnabled = options_cacheEnabled cfg options;
                            cacheMaxAge = options_cacheMaxAge cfg options;
                            (cached, w1) = (if cacheEnabled then getFromCache rt ckey w else (JNull, w))
                        in if cacheEnabled \<and> truthy cached then Inr (\<lparr>data = cached, error = None\<rparr>, w1)
                           else
                             (let (result, w2) =
                                    handleRequest cfg
                                      (fetch rt (toString url)
                                         \<lparr>init_method = Some ''PUT'', init_headers = mergedHeaders,
                                          init_body = serialized\<rparr>)
                                      (Some ''PUT'') w1
                              in Inr (result,
                                      if cacheEnabled \<and> truthy (data result)
                                      then saveToCache cfg rt ckey (data result) (Some cacheMaxAge) w2
                                      else w2))))))"

definition patch ::
  "TFetchClientOptions \<Rightarrow> runtime \<Rightarrow> UrlOrString \<Rightarrow> ContentWrapper option \<Rightarrow> RequestOptions option \<Rightarrow>
     world \<Rightarrow> thrown + Result \<times> world" where
  "patch cfg rt url body options w =
     (case body of
        None \<Rightarrow> Inl (Error ''Cannot read properties of undefined (reading 'type')'')
      | Some b \<Rightarrow>
          (let mergedHeaders =
                 mergeHeaders [Some (default_headers cfg), Some (getHeaders (body_type b)),
                               Some (options_headers options)]
           in case prepareBody body of
                Inl e \<Rightarrow> Inl e
              | Inr actualBody \<Rightarrow>
                  (case serializeBody actualBody of
                     Inl e \<Rightarrow> Inl e
                   | Inr serialized \<Rightarrow>
                       (let ckey = generateCacheKey (localeCompare rt) url ''PATCH''
                                     (Some (HHeaders mergedHeaders)) serialized;
                            cacheEnabled = options_cacheEnabled cfg options;
                            cacheMaxAge = options_cacheMaxAge cfg options;
                            (cached, w1) = (if cacheEnabled then getFromCache rt ckey w else (JNull, w))
                        in if cacheEnabled \<and> truthy cached then Inr (\<lparr>data = cached, error = None\<rparr>, w1)
                           else
                             (let (result, w2) =
                                    handleRequest cfg
                                      (fetch rt (toString url)
                                         \<lparr>init_method = Some ''PATCH'', init_headers = mergedHeaders,
                                          init_body = serialized\<rparr>)
                                      (Some ''PATCH'') w1
                              in Inr (result,
                                      if cacheEnabled \<and> truthy (data result)
                                      then saveToCache cfg rt ckey (data result) (Some cacheMaxAge) w2
                                      else w2))))))"

definition delete ::
  "TFetchClientOptions \<Rightarrow> runtime \<Rightarrow> UrlOrString \<Rightarrow> RequestOptions option \<Rightarrow> world \<Rightarrow> Result \<times> world" where
  "delete cfg rt url options w =
     (let mergedHeaders = mergeHeaders [Some (default_headers cfg), Some (options_headers options)];
          ckey = generateCacheKey (localeCompare rt) url ''DELETE'' (Some (HHeaders mergedHeaders)) JUndefined;
          cacheEnabled = options_cacheEnabled cfg options;
          cacheMaxAge = options_cacheMaxAge cfg options;
          (cached, w1) = (if cacheEnabled then getFromCache rt ckey w else (JNull, w))
      in if cacheEnabled \<and> truthy cached then (\<lparr>data = cached, error = None\<rparr>, w1)
         else
           (let (result, w2) =
                  handleRequest cfg
                    (fetch rt (toString url)
                       \<lparr>init_method = Some ''DELETE'', init_headers = mergedHeaders, init_body = JUndefined\<rparr>)
                    (Some ''DELETE'') w1
            in (result,
                if cacheEnabled \<and> truthy (data result)
                then saveToCache cfg rt ckey (data result) (Some cacheMaxAge) w2 else w2)))"

definition head ::
  "TFetchClientOptions \<Rightarrow> runtime \<Rightarrow> UrlOrString \<Rightarrow> RequestOptions option \<Rightarrow> world \<Rightarrow> Result \<times> world" where
  "head cfg rt url options w =
     (let mergedHeaders = mergeHeaders [Some (default_headers cfg), Some (options_headers options)];
          ckey = generateCacheKey (localeCompare rt) url ''HEAD'' (Some (HHeaders mergedHeaders)) JUndefined;
          cacheEnabled = options_cacheEnabled cfg options;
          cacheMaxAge = options_cacheMaxAge cfg options;
          (cached, w1) = (if cacheEnabled then getFromCache rt ckey w else (JNull, w))
      in if cacheEnabled \<and> truthy cached then (\<lparr>data = cached, error = None\<rparr>, w1)
         else
           (let (result, w2) =
                  handleRequest cfg
                    (fetch rt (toString url)
                       \<lparr>init_method = Some ''HEAD'', init_headers = mergedHeaders, init_body = JUndefined\<rparr>)
                    (Some ''HEAD'') w1
            in (result,
                if cacheEnabled \<and> truthy (data result)
                then saveToCache cfg rt ckey (data result) (Some cacheMaxAge) w2 else w2)))"

section \<open>Promises that reject\<close>

text \<open>
  The six operations and \<open>handleRequest\<close> are \<open>async\<close>: the promise they return is
  fulfilled with a \<open>Result\<close> or rejected. The definitions above describe them on a host
  that behaves: header names and values that \<open>new Headers\<close> accepts, a retry callback that
  returns, and rejections whose reason is an \<open>Error\<close> object. The definitions of this
  section describe them on every host: \<open>Inl\<close> is a rejected promise.

  The reason of a rejection, or a value thrown: \<open>None\<close> is \<open>null\<close> or \<open>undefined\<close>,
  of which no property can be read, \<open>Some e\<close> an \<open>Error\<close> object. Any other reason (a
  string, a number) has no \<open>message\<close> and is no \<open>TFetchError\<close>, as \<open>Error []\<close>.
\<close>

type_synonym raised = "thrown option"

record AsyncResponse =
  ar_ok :: bool
  ar_status :: int
  ar_content_length :: "string option"
  ar_text :: "raised + string"
  ar_json :: "raised + jsval"

datatype settled = Rejected raised | Fulfilled AsyncResponse

text \<open>
  \<open>new Headers(src)\<close> throws a \<open>TypeError\<close> when a name is not an HTTP token, or when a
  value, once its leading and trailing white space is stripped, holds a NUL, a line feed
  or a carriage return. The message of the error is the host's. The characters of a
  string are bytes here, so its conversion to a byte string does not throw.
\<close>

definition is_token_char :: "char \<Rightarrow> bool" where
  "is_token_char c =
     (let n = (of_char c :: nat) in
      (48 \<le> n \<and> n \<le> 57) \<or> (65 \<le> n \<and> n \<le> 90) \<or> (97 \<le> n \<and> n \<le> 122) \<or>
      n \<in> {33, 35, 36, 37, 38, 39, 42, 43, 45, 46, 94, 95, 96, 124, 126})"

definition valid_header_name :: "string \<Rightarrow> bool" where
  "valid_header_name name = (name \<noteq> [] \<and> list_all is_token_char name)"

definition is_http_whitespace :: "char \<Rightarrow> bool" where
  "is_http_whitespace c = ((of_char c :: nat) \<in> {9, 10, 13, 32})"

definition normalize_value :: "string \<Rightarrow> string" where
  "normalize_value v = rev (dropWhile is_http_whitespace (rev (dropWhile is_http_whitespace v)))"

definition valid_header_value :: "string \<Rightarrow> bool" where
  "valid_header_value v = list_all (\<lambda>c. (of_char c :: nat) \<notin> {0, 10, 13}) (normalize_value v)"

fun valid_HeadersInit :: "HeadersInit \<Rightarrow> bool" where
  "valid_HeadersInit (HRecord kvs) =
     list_all (\<lambda>(k, v). valid_header_name k \<and> valid_header_value v) kvs"
| "valid_HeadersInit (HPairs kvs) =
     list_all (\<lambda>(k, v). valid_header_name k \<and> valid_header_value v) kvs"
| "valid_HeadersInit (HHeaders h) = True"

definition invalid_header :: thrown where
  "invalid_header = Error ''Invalid header name or value''"

text \<open>
  \<open>mergeHeaders\<close> with the throw of \<open>new Headers\<close>: it throws at the first source that
  is not valid, and merges as above when every source is valid.
\<close>

definition mergeHeaders_or_throw :: "HeadersInit option list \<Rightarrow> thrown + Headers" where
  "mergeHeaders_or_throw sources =
     (if list_all (\<lambda>src. case src of None \<Rightarrow> True | Some s \<Rightarrow> valid_HeadersInit s) sources
      then Inr (mergeHeaders sources) else Inl invalid_header)"

text \<open>The \<open>try\<close> block of \<open>handleRequest\<close>, as \<open>try_block\<close>, for reasons of any kind.\<close>

definition async_try_block ::
  "TFetchClientOptions \<Rightarrow> string option \<Rightarrow> settled \<Rightarrow> (raised + Result) \<times> nat" where
  "async_try_block cfg method out =
     (case out of
        Rejected e \<Rightarrow> (Inl e, 0)
      | Fulfilled res \<Rightarrow>
          if \<not> ar_ok res then
            (case ar_text res of
               Inl e \<Rightarrow> (Inl e, 1)
             | Inr errorText \<Rightarrow>
                 (Inr \<lparr>data = JNull, error = Some (TFetchError errorText (Some (ar_status res)))\<rparr>, 1))
          else if method = Some ''DELETE'' \<and> ar_content_length res = Some ''0'' then
            (case deleteHandling cfg of
               DeleteEmpty \<Rightarrow> (Inr \<lparr>data = JNull, error = None\<rparr>, 0)
             | DeleteStatus \<Rightarrow> (Inr \<lparr>data = JNum (ar_status res), error = None\<rparr>, 0)
             | DeleteJson \<Rightarrow>
                 (case ar_json res of
                    Inr v \<Rightarrow> (Inr \<lparr>data = v, error = None\<rparr>, 1)
                  | Inl e \<Rightarrow> (Inr \<lparr>data = JNull, error = None\<rparr>, 1)))
          else
            (case ar_json res of
               Inl e \<Rightarrow> (Inl e, 1)
             | Inr v \<Rightarrow> (Inr \<lparr>data = v, error = None\<rparr>, 1)))"

text \<open>
  The loop of \<open>handleRequest\<close> with the two throws of its \<open>catch\<close> block, which nothing
  catches: the retry callback may throw (\<open>onRetry k\<close> is what its \<open>k\<close>-th call throws,
  \<open>None\<close> when it returns), and reading \<open>lastError.message\<close> throws a \<open>TypeError\<close> when
  the reason caught last is null or undefined.
\<close>

function async_handleRequest_loop ::
  "TFetchClientOptions \<Rightarrow> (nat \<Rightarrow> raised option) \<Rightarrow> (nat \<Rightarrow> settled) \<Rightarrow> string option \<Rightarrow> int \<Rightarrow>
     world \<Rightarrow> (raised + Result) \<times> world" where
  "async_handleRequest_loop cfg onRetry request method attempts w =
     (if attempts \<le> retry_count cfg then
        (case async_try_block cfg method (request (fetch_calls w)) of
           (Inr result, reads) \<Rightarrow>
             (Inr result, w\<lparr>fetch_calls := fetch_calls w + 1, body_reads := body_reads w + reads\<rparr>)
         | (Inl lastError, reads) \<Rightarrow>
             if attempts < retry_count cfg then
               (case (if retry_onRetry cfg then onRetry (onRetry_calls w) else None) of
                  Some v \<Rightarrow>
                    (Inl v,
                     w\<lparr>fetch_calls := fetch_calls w + 1, body_reads := body_reads w + reads,
                        onRetry_calls := onRetry_calls w + 1\<rparr>)
                | None \<Rightarrow>
                    async_handleRequest_loop cfg onRetry request method (attempts + 1)
                      (w\<lparr>fetch_calls := fetch_calls w + 1, body_reads := body_reads w + reads,
                         onRetry_calls := onRetry_calls w + (if retry_onRetry cfg then 1 else 0),
                         slept := slept w + retry_delay cfg\<rparr>))
             else
               (case lastError of
                  None \<Rightarrow>
                    (Inl (Some (Error ''Cannot read properties of null (reading 'message')'')),
                     w\<lparr>fetch_calls := fetch_calls w + 1, body_reads := body_reads w + reads\<rparr>)
                | Some e \<Rightarrow>
                    (Inr \<lparr>data = JNull, error = Some (final_error e)\<rparr>,
                     w\<lparr>fetch_calls := fetch_calls w + 1, body_reads := body_reads w + reads\<rparr>)))
      else (Inr \<lparr>data = JNull, error = Some (TFetchError ''Max retries exceeded'' None)\<rparr>, w))"
  by pat_completeness auto
termination
  by (relation "measure (\<lambda>(cfg, onRetry, request, method, attempts, w). nat (retry_count cfg - attempts))")
    auto

declare async_handleRequest_loop.simps [simp del]

definition async_handleRequest ::
  "TFetchClientOptions \<Rightarrow> (nat \<Rightarrow> raised option) \<Rightarrow> (nat \<Rightarrow> settled) \<Rightarrow> string option \<Rightarrow> world \<Rightarrow>
     (raised + Result) \<times> world" where
  "async_handleRequest cfg onRetry request method w =
     async_handleRequest_loop cfg onRetry request method 0 w"

text \<open>
  The six operations with every throw: of \<open>mergeHeaders\<close>, of reading \<open>body.type\<close>, of
  \<open>prepareBody\<close> and \<open>serializeBody\<close>, and of \<open>handleRequest\<close>. The clock and the
  collation are those of \<open>rt\<close>; \<open>transport\<close> stands for \<open>fetch\<close>.
\<close>

definition async_get ::
  "TFetchClientOptions \<Rightarrow> runtime \<Rightarrow> (string \<Rightarrow> RequestInit \<Rightarrow> nat \<Rightarrow> settled) \<Rightarrow> (nat \<Rightarrow> raised option) \<Rightarrow>
     UrlOrString \<Rightarrow> RequestOptions option \<Rightarrow> world \<Rightarrow> (raised + Result) \<times> world" where
  "async_get cfg rt transport onRetry url options w =
     (case mergeHeaders_or_throw [Some (default_headers cfg), Some (options_headers options)] of
        Inl e \<Rightarrow> (Inl (Some e), w)
      | Inr mergedHeaders \<Rightarrow>
          (let ckey = generateCacheKey (localeCompare rt) url ''GET'' (Some (HHeaders mergedHeaders)) JUndefined;
               cacheEnabled = options_cacheEnabled cfg options;
               cacheMaxAge = options_cacheMaxAge cfg options;
               (cached, w1) = (if cacheEnabled then getFromCache rt ckey w else (JNull, w))
           in if cacheEnabled \<and> truthy cached then (Inr \<lparr>data = cached, error = None\<rparr>, w1)
              else
                (case async_handleRequest cfg onRetry
                        (transport (toString url)
                           \<lparr>init_method = None, init_headers = mergedHeaders, init_body = JUndefined\<rparr>)
                        (Some ''GET'') w1 of
                   (Inl e, w2) \<Rightarrow> (Inl e, w2)
                 | (Inr result, w2) \<Rightarrow>
                     (Inr result,
                      if cacheEnabled \<and> truthy (data result)
                      then saveToCache cfg rt ckey (data result) (Some cacheMaxAge) w2 else w2))))"

definition async_post ::
  "TFetchClientOptions \<Rightarrow> runtime \<Rightarrow> (string \<Rightarrow> RequestInit \<Rightarrow> nat \<Rightarrow> settled) \<Rightarrow> (nat \<Rightarrow> raised option) \<Rightarrow>
     UrlOrString \<Rightarrow> ContentWrapper option \<Rightarrow> RequestOptions option \<Rightarrow> world \<Rightarrow> (raised + Result) \<times> world" where
  "async_post cfg rt transport onRetry url body options w =
     (case body of
        None \<Rightarrow> (Inl (Some (Error ''Cannot read properties of undefined (reading 'type')'')), w)
      | Some b \<Rightarrow>
          (case mergeHeaders_or_throw
                  [Some (default_headers cfg), Some (getHeaders (body_type b)), Some (options_headers options)] of
             Inl e \<Rightarrow> (Inl (Some e), w)
           | Inr mergedHeaders \<Rightarrow>
               (case prepareBody body of
                  Inl e \<Rightarrow> (Inl (Some e), w)
                | Inr actualBody \<Rightarrow>
                    (case serializeBody actualBody of
                       Inl e \<Rightarrow> (Inl (Some e), w)
                     | Inr serialized \<Rightarrow>
                         (let ckey = generateCacheKey (localeCompare rt) url ''POST''
                                       (Some (HHeaders mergedHeaders)) serialized;
                              cacheEnabled = options_cacheEnabled cfg options;
                              cacheMaxAge = options_cacheMaxAge cfg options;
                              (cached, w1) = (if cacheEnabled then getFromCache rt ckey w else (JNull, w))
                          in if cacheEnabled \<and> truthy cached then (Inr \<lparr>data = cached, error = None\<rparr>, w1)
                             else
                               (case async_handleRequest cfg onRetry
                                       (transport (toString url)
                                          \<lparr>init_method = Some ''POST'', init_headers = mergedHeaders,
                                           init_body = serialized\<rparr>)
                                       (Some ''POST'') w1 of
                                  (Inl e, w2) \<Rightarrow> (Inl e, w2)
                                | (Inr result, w2) \<Rightarrow>
                                    (Inr result,
                                     if cacheEnabled \<and> truthy (data result)
                                     then saveToCache cfg rt ckey (data result) (Some cacheMaxAge) w2
                                     else w2)))))))"

definition async_put ::
  "TFetchClientOptions \<Rightarrow> runtime \<Rightarrow> (string \<Rightarrow> RequestInit \<Rightarrow> nat \<Rightarrow> settled) \<Rightarrow> (nat \<Rightarrow> raised option) \<Rightarrow>
     UrlOrString \<Rightarrow> ContentWrapper option \<Rightarrow> RequestOptions option \<Rightarrow> world \<Rightarrow> (raised + Result) \<times> world" where
  "async_put cfg rt transport onRetry url body options w =
     (case body of
        None \<Rightarrow> (Inl (Some (Error ''Cannot read properties of undefined (reading 'type')'')), w)
      | Some b \<Rightarrow>
          (case mergeHeaders_or_throw
                  [Some (default_headers cfg), Some (getHeaders (body_type b)), Some (options_headers options)] of
             Inl e \<Rightarrow> (Inl (Some e), w)
           | Inr mergedHeaders \<Rightarrow>
               (case prepareBody body of
                  Inl e \<Rightarrow> (Inl (Some e), w)
                | Inr actualBody \<Rightarrow>
                    (case serializeBody actualBody of
                       Inl e \<Rightarrow> (Inl (Some e), w)
                     | Inr serialized \<Rightarrow>
                         (let ckey = generateCacheKey (localeCompare rt) url ''PUT''
                                       (Some (HHeaders mergedHeaders)) serialized;
                              cacheEnabled = options_cacheEnabled cfg options;
                              cacheMaxAge = options_cacheMaxAge cfg options;
                              (cached, w1) = (if cacheEnabled then getFromCache rt ckey w else (JNull, w))
                          in if cacheEnabled \<and> truthy cached then (Inr \<lparr>data = cached, error = None\<rparr>, w1)
                             else
                               (case async_handleRequest cfg onRetry
                                       (transport (toString url)
                                          \<lparr>init_method = Some ''PUT'', init_headers = mergedHeaders,
                                           init_body = serialized\<rparr>)
                                       (Some ''PUT'') w1 of
                                  (Inl e, w2) \<Rightarrow> (Inl e, w2)
                                | (Inr result, w2) \<Rightarrow>
                                    (Inr result,
                                     if cacheEnabled \<and> truthy (data result)
                                     then saveToCache cfg rt ckey (data result) (Some cacheMaxAge) w2
                                     else w2)))))))"

definition async_patch ::
  "TFetchClientOptions \<Rightarrow> runtime \<Rightarrow> (string \<Rightarrow> RequestInit \<Rightarrow> nat \<Rightarrow> settled) \<Rightarrow> (nat \<Rightarrow> raised option) \<Rightarrow>
     UrlOrString \<Rightarrow> ContentWrapper option \<Rightarrow> RequestOptions option \<Rightarrow> world \<Rightarrow> (raised + Result) \<times> world" where
  "async_patch cfg rt transport onRetry url body options w =
     (case body of
        None \<Rightarrow> (Inl (Some (Error ''Cannot read properties of undefined (reading 'type')'')), w)
      | Some b \<Rightarrow>
          (case mergeHeaders_or_throw
                  [Some (default_headers cfg), Some (getHeaders (body_type b)), Some (options_headers options)] of
             Inl e \<Rightarrow> (Inl (Some e), w)
           | Inr mergedHeaders \<Rightarrow>
               (case prepareBody body of
                  Inl e \<Rightarrow> (Inl (Some e), w)
                | Inr actualBody \<Rightarrow>
                    (case serializeBody actualBody of
                       Inl e \<Rightarrow> (Inl (Some e), w)
                     | Inr serialized \<Rightarrow>
                         (let ckey = generateCacheKey (localeCompare rt) url ''PATCH''
                                       (Some (HHeaders mergedHeaders)) serialized;
                              cacheEnabled = options_cacheEnabled cfg options;
                              cacheMaxAge = options_cacheMaxAge cfg options;
                              (cached, w1) = (if cacheEnabled then getFromCache rt ckey w else (JNull, w))
                          in if cacheEnabled \<and> truthy cached then (Inr \<lparr>data = cached, error = None\<rparr>, w1)
                             else
                               (case async_handleRequest cfg onRetry
                                       (transport (toString url)
                                          \<lparr>init_method = Some ''PATCH'', init_headers = mergedHeaders,
                                           init_body = serialized\<rparr>)
                                       (Some ''PATCH'') w1 of
                                  (Inl e, w2) \<Rightarrow> (Inl e, w2)
                                | (Inr result, w2) \<Rightarrow>
                                    (Inr result,
                                     if cacheEnabled \<and> truthy (data result)
                                     then saveToCache cfg rt ckey (data result) (Some cacheMaxAge) w2
                                     else w2)))))))"

definition async_delete ::
  "TFetchClientOptions \<Rightarrow> runtime \<Rightarrow> (string \<Rightarrow> RequestInit \<Rightarrow> nat \<Rightarrow> settled) \<Rightarrow> (nat \<Rightarrow> raised option) \<Rightarrow>
     UrlOrString \<Rightarrow> RequestOptions option \<Rightarrow> world \<Rightarrow> (raised + Result) \<times> world" where
  "async_delete cfg rt transport onRetry url options w =
     (case mergeHeaders_or_throw [Some (default_headers cfg), Some (options_headers options)] of
        Inl e \<Rightarrow> (Inl (Some e), w)
      | Inr mergedHeaders \<Rightarrow>
          (let ckey = generateCacheKey (localeCompare rt) url ''DELETE'' (Some (HHeaders mergedHeaders)) JUndefined;
               cacheEnabled = options_cacheEnabled cfg options;
               cacheMaxAge = options_cacheMaxAge cfg options;
               (cached, w1) = (if cacheEnabled then getFromCache rt ckey w else (JNull, w))
           in if cacheEnabled \<and> truthy cached then (Inr \<lparr>data = cached, error = None\<rparr>, w1)
              else
                (case async_handleRequest cfg onRetry
                        (transport (toString url)
                           \<lparr>init_method = Some ''DELETE'', init_headers = mergedHeaders, init_body = JUndefined\<rparr>)
                        (Some ''DELETE'') w1 of
                   (Inl e, w2) \<Rightarrow> (Inl e, w2)
                 | (Inr result, w2) \<Rightarrow>
                     (Inr result,
                      if cacheEnabled \<and> truthy (data result)
                      then saveToCache cfg rt ckey (data result) (Some cacheMaxAge) w2 else w2))))"

definition async_head ::
  "TFetchClientOptions \<Rightarrow> runtime \<Rightarrow> (string \<Rightarrow> RequestInit \<Rightarrow> nat \<Rightarrow> settled) \<Rightarrow> (nat \<Rightarrow> raised option) \<Rightarrow>
     UrlOrString \<Rightarrow> RequestOptions option \<Rightarrow> world \<Rightarrow> (raised + Result) \<times> world" where
  "async_head cfg rt transport onRetry url options w =
     (case mergeHeaders_or_throw [Some (default_headers cfg), Some (options_headers options)] of
        Inl e \<Rightarrow> (Inl (Some e), w)
      | Inr mergedHeaders \<Rightarrow>
          (let ckey = generateCacheKey (localeCompare rt) url ''HEAD'' (Some (HHeaders mergedHeaders)) JUndefined;
               cacheEnabled = options_cacheEnabled cfg options;
               cacheMaxAge = options_cacheMaxAge cfg options;
               (cached, w1) = (if cacheEnabled then getFromCache rt ckey w else (JNull, w))
           in if cacheEnabled \<and> truthy cached then (Inr \<lparr>data = cached, error = None\<rparr>, w1)
              else
                (case async_handleRequest cfg onRetry
                        (transport (toString url)
                           \<lparr>init_method = Some ''HEAD'', init_headers = mergedHeaders, init_body = JUndefined\<rparr>)
                        (Some ''HEAD'') w1 of
                   (Inl e, w2) \<Rightarrow> (Inl e, w2)
                 | (Inr result, w2) \<Rightarrow>
                     (Inr result,
                      if cacheEnabled \<and> truthy (data result)
                      then saveToCache cfg rt ckey (data result) (Some cacheMaxAge) w2 else w2))))"

text \<open>
  A well-behaved call of the transport, seen as a settled call of any kind.
\<close>

fun as_settled :: "outcome \<Rightarrow> settled" where
  "as_settled (Rejects e) = Rejected (Some e)"
| "as_settled (Resolves res) =
     Fulfilled \<lparr>ar_ok = res_ok res, ar_status = res_status res,
                ar_content_length = res_content_length res,
                ar_text = (case res_text res of Inl e \<Rightarrow> Inl (Some e) | Inr t \<Rightarrow> Inr t),
                ar_json = (case res_json res of Inl e \<Rightarrow> Inl (Some e) | Inr v \<Rightarrow> Inr v)\<rparr>"



section \<open>Initial configuration and state\<close>

text \<open>
  What the constructor builds from no options at all (the documented defaults: no retry,
  one second between attempts, five minutes of cache life, 5000 cached entries), and the
  state of a client just constructed.
\<close>

definition DEFAULT_RETRY_COUNT :: int where
  "DEFAULT_RETRY_COUNT = 0"

definition DEFAULT_RETRY_DELAY :: int where
  "DEFAULT_RETRY_DELAY = 1000"

definition DEFAULT_MAX_CACHED_ENTRIES :: int where
  "DEFAULT_MAX_CACHED_ENTRIES = 5000"

definition Time_Minute :: int where
  "Time_Minute = 60 * 1000"

definition default_config :: TFetchClientOptions where
  "default_config =
     \<lparr>debug = False, default_headers = HRecord [], deleteHandling = DeleteEmpty,
      retry_count = DEFAULT_RETRY_COUNT, retry_delay = DEFAULT_RETRY_DELAY, retry_onRetry = False,
      cache_enabled = False, cache_maxAge = Time_Minute * 5,
      cache_maxCachedEntries = DEFAULT_MAX_CACHED_ENTRIES\<rparr>"

definition new_world :: world where
  "new_world = \<lparr>cache = [], fetch_calls = 0, body_reads = 0, clock_reads = 0, onRetry_calls = 0, slept = 0\<rparr>"

section \<open>Scripted hosts\<close>

text \<open>
  Hosts for running the client on concrete inputs: \<open>fetch\<close> follows a script indexed by
  the number of the call, the clock advances by one millisecond per reading, and all
  strings collate as equal.
\<close>

definition always :: "outcome \<Rightarrow> nat \<Rightarrow> outcome" where
  "always out n = out"

definition rejects_then :: "nat \<Rightarrow> thrown \<Rightarrow> outcome \<Rightarrow> nat \<Rightarrow> outcome" where
  "rejects_then k e out n = (if n < k then Rejects e else out)"

definition collate_equal :: "string \<Rightarrow> string \<Rightarrow> int" where
  "collate_equal a b = 0"

definition scripted_host :: "(nat \<Rightarrow> outcome) \<Rightarrow> runtime" where
  "scripted_host script = \<lparr>fetch = (\<lambda>url init. script), Date_now = int, localeCompare = collate_equal\<rparr>"

definition every :: "'a \<Rightarrow> 'b \<Rightarrow> 'a" where
  "every x y = x"


section \<open>Serialization of a prepared wrapper\<close>

lemma JSON_stringify_undefined: "JSON_stringify v = Inr None \<longleftrightarrow> v = JUndefined"
  by (cases v) (auto split: sum.splits)

text \<open>
  C9. \<open>serializeBody\<close> by content type, for data \<open>d\<close> that is neither null nor
  undefined: \<open>json\<close> gives the JSON encoding of \<open>d\<close> as a string, or fails with a
  \<open>TFetchError\<close> of status 400 when the encoder throws; \<open>text\<close> gives \<open>String(d)\<close>;
  \<open>blob\<close>, \<open>form\<close> and \<open>multipart\<close> give \<open>d\<close> itself; any other type tag fails with
  "Cannot serialize content type". Null or undefined data gives \<open>undefined\<close> (no body), which
  is not the empty string. The examples of the specification: \<open>{a:1}\<close> as \<open>json\<close> is
  \<open>{"a":1}\<close>, and \<open>123\<close> as \<open>text\<close> is \<open>"123"\<close>.
\<close>

theorem serializeBody_by_type:
  "(d \<noteq> JNull \<and> d \<noteq> JUndefined \<longrightarrow>
      ((\<exists>j. JSON_stringify d = Inr (Some j) \<and>
            serializeBody \<lparr>body_type = Some ''json'', body_data = d\<rparr> = Inr (JStr j)) \<or>
       (\<exists>e. JSON_stringify d = Inl e \<and>
            serializeBody \<lparr>body_type = Some ''json'', body_data = d\<rparr> =
              Inl (Thrown (TFetchError (''Failed to serialize JSON data: '' @ error_message e) (Some 400))))) \<and>
      serializeBody \<lparr>body_type = Some ''text'', body_data = d\<rparr> = Inr (JStr (String d)) \<and>
      serializeBody \<lparr>body_type = Some ''blob'', body_data = d\<rparr> = Inr d \<and>
      serializeBody \<lparr>body_type = Some ''form'', body_data = d\<rparr> = Inr d \<and>
      serializeBody \<lparr>body_type = Some ''multipart'', body_data = d\<rparr> = Inr d \<and>
      (t \<notin> {''json'', ''form'', ''multipart'', ''text'', ''blob''} \<longrightarrow>
         serializeBody \<lparr>body_type = Some t, body_data = d\<rparr> =
           Inl (Thrown (TFetchError (''Cannot serialize content type: '' @ t) (Some 400))))) \<and>
   serializeBody \<lparr>body_type = ty, body_data = JNull\<rparr> = Inr JUndefined \<and>
   serializeBody \<lparr>body_type = ty, body_data = JUndefined\<rparr> = Inr JUndefined \<and>
   JUndefined \<noteq> JStr [] \<and>
   serializeBody \<lparr>body_type = Some ''json'', body_data = JObj [(''a'', JNum 1)]\<rparr> =
     Inr (JStr ([CHR ''{'', CHR 0x22, CHR ''a'', CHR 0x22, CHR '':'', CHR ''1'', CHR ''}''])) \<and>
   serializeBody \<lparr>body_type = Some ''text'', body_data = JNum 123\<rparr> = Inr (JStr ''123'') \<and>
   serializeBody \<lparr>body_type = Some ''blob'', body_data = JBlob b\<rparr> = Inr (JBlob b)"
proof -
  have json: "d \<noteq> JNull \<and> d \<noteq> JUndefined \<longrightarrow>
      ((\<exists>j. JSON_stringify d = Inr (Some j) \<and>
            serializeBody \<lparr>body_type = Some ''json'', body_data = d\<rparr> = Inr (JStr j)) \<or>
       (\<exists>e. JSON_stringify d = Inl e \<and>
            serializeBody \<lparr>body_type = Some ''json'', body_data = d\<rparr> =
              Inl (Thrown (TFetchError (''Failed to serialize JSON data: '' @ error_message e) (Some 400)))))"
  proof
    assume d: "d \<noteq> JNull \<and> d \<noteq> JUndefined"
    show "(\<exists>j. JSON_stringify d = Inr (Some j) \<and>
            serializeBody \<lparr>body_type = Some ''json'', body_data = d\<rparr> = Inr (JStr j)) \<or>
       (\<exists>e. JSON_stringify d = Inl e \<and>
            serializeBody \<lparr>body_type = Some ''json'', body_data = d\<rparr> =
              Inl (Thrown (TFetchError (''Failed to serialize JSON data: '' @ error_message e) (Some 400))))"
    proof (cases "JSON_stringify d")
      case (Inl e)
      with d show ?thesis by (simp add: serializeBody_def)
    next
      case (Inr s)
      with d JSON_stringify_undefined [of d] obtain j where "s = Some j" by (cases s) auto
      with d Inr show ?thesis by (simp add: serializeBody_def)
    qed
  qed
  have ex1: "serializeBody \<lparr>body_type = Some ''json'', body_data = JObj [(''a'', JNum 1)]\<rparr> =
     Inr (JStr ([CHR ''{'', CHR 0x22, CHR ''a'', CHR 0x22, CHR '':'', CHR ''1'', CHR ''}'']))"
    by (simp add: serializeBody_def quote_def quote_char_def show_int_def show_nat.simps digit_def)
  have ex2: "serializeBody \<lparr>body_type = Some ''text'', body_data = JNum 123\<rparr> = Inr (JStr ''123'')"
    by (simp add: serializeBody_def show_int_def show_nat.simps digit_def)
  show ?thesis
    using json ex1 ex2 by (simp add: serializeBody_def)
qed

theorem serializeBody_by_type_witness:
  "serializeBody \<lparr>body_type = Some ''text'', body_data = JBool True\<rparr> = Inr (JStr ''true'') \<and>
   serializeBody \<lparr>body_type = Some ''json'', body_data = JArr [JNum 1, JNull]\<rparr> = Inr (JStr ''[1,null]'') \<and>
   serializeBody \<lparr>body_type = Some ''json'', body_data = JArr [JBigInt 1]\<rparr> =
     Inl (Thrown (TFetchError ''Failed to serialize JSON data: Do not know how to serialize a BigInt'' (Some 400))) \<and>
   serializeBody \<lparr>body_type = Some ''xml'', body_data = JStr ''<a/>''\<rparr> =
     Inl (Thrown (TFetchError ''Cannot serialize content type: xml'' (Some 400)))"
  using serializeBody_by_type [of "JBool True" "''xml''" None "Blob [] []"]
    serializeBody_by_type [of "JArr [JNum 1, JNull]" "''xml''" None "Blob [] []"]
    serializeBody_by_type [of "JArr [JBigInt 1]" "''xml''" None "Blob [] []"]
    serializeBody_by_type [of "JStr ''<a/>''" "''xml''" None "Blob [] []"]
  by (simp add: show_int_def show_nat.simps digit_def)

section \<open>The retry budget\<close>

lemma loop_return:
  "attempts \<le> retry_count cfg \<Longrightarrow> try_block cfg method (request (fetch_calls w)) = (Inr r, k) \<Longrightarrow>
   handleRequest_loop cfg request method attempts w =
     (r, w\<lparr>fetch_calls := fetch_calls w + 1, body_reads := body_reads w + k\<rparr>)"
  by (subst handleRequest_loop.simps) simp

lemma loop_retry:
  "attempts < retry_count cfg \<Longrightarrow> try_block cfg method (request (fetch_calls w)) = (Inl e, k) \<Longrightarrow>
   handleRequest_loop cfg request method attempts w =
     handleRequest_loop cfg request method (attempts + 1)
       (w\<lparr>fetch_calls := fetch_calls w + 1, body_reads := body_reads w + k,
          onRetry_calls := onRetry_calls w + (if retry_onRetry cfg then 1 else 0),
          slept := slept w + retry_delay cfg\<rparr>)"
  by (subst handleRequest_loop.simps) simp

lemma loop_give_up:
  "attempts = retry_count cfg \<Longrightarrow> try_block cfg method (request (fetch_calls w)) = (Inl e, k) \<Longrightarrow>
   handleRequest_loop cfg request method attempts w =
     (\<lparr>data = JNull, error = Some (final_error e)\<rparr>,
      w\<lparr>fetch_calls := fetch_calls w + 1, body_reads := body_reads w + k\<rparr>)"
  by (subst handleRequest_loop.simps) simp

lemma loop_exhausted:
  "retry_count cfg < attempts \<Longrightarrow>
   handleRequest_loop cfg request method attempts w =
     (\<lparr>data = JNull, error = Some (TFetchError ''Max retries exceeded'' None)\<rparr>, w)"
  by (subst handleRequest_loop.simps) simp

lemma loop_calls_le:
  "fetch_calls (snd (handleRequest_loop cfg request method attempts w))
     \<le> fetch_calls w + nat (retry_count cfg + 1 - attempts)"
proof (induction cfg request "method" attempts w rule: handleRequest_loop.induct)
  case (1 cfg request m attempts w)
  show ?case
  proof (cases "attempts \<le> retry_count cfg")
    case False
    then show ?thesis by (simp add: loop_exhausted)
  next
    case le: True
    obtain r k where tb: "try_block cfg m (request (fetch_calls w)) = (r, k)"
      by (cases "try_block cfg m (request (fetch_calls w))")
    show ?thesis
    proof (cases r)
      case (Inr res)
      with le tb show ?thesis by (simp add: loop_return)
    next
      case (Inl e)
      show ?thesis
      proof (cases "attempts < retry_count cfg")
        case True
        from "1.IH" [OF le tb [symmetric] Inl True]
        show ?thesis using True tb Inl by (simp add: loop_retry)
      next
        case False
        with le have "attempts = retry_count cfg" by simp
        with tb Inl show ?thesis by (simp add: loop_give_up)
      qed
    qed
  qed
qed

lemma loop_all_reject:
  "\<forall>n. \<exists>e. request n = Rejects e \<Longrightarrow> attempts \<le> retry_count cfg \<Longrightarrow>
   (\<exists>e. request (fetch_calls w + nat (retry_count cfg - attempts)) = Rejects e \<and>
        fst (handleRequest_loop cfg request method attempts w) =
          \<lparr>data = JNull, error = Some (final_error e)\<rparr>) \<and>
   fetch_calls (snd (handleRequest_loop cfg request method attempts w)) =
     fetch_calls w + nat (retry_count cfg - attempts) + 1 \<and>
   onRetry_calls (snd (handleRequest_loop cfg request method attempts w)) =
     onRetry_calls w + (if retry_onRetry cfg then nat (retry_count cfg - attempts) else 0)"
proof (induction cfg request "method" attempts w rule: handleRequest_loop.induct)
  case (1 cfg request m attempts w)
  from "1.prems" obtain e where e: "request (fetch_calls w) = Rejects e" by blast
  then have tb: "try_block cfg m (request (fetch_calls w)) = (Inl e, 0)"
    by (simp add: try_block_def)
  show ?case
  proof (cases "attempts < retry_count cfg")
    case True
    have n: "nat (retry_count cfg - attempts) = Suc (nat (retry_count cfg - (attempts + 1)))"
      using True by simp
    from "1.IH" [OF "1.prems"(2) tb [symmetric] refl True "1.prems"(1)] True
    show ?thesis
      unfolding loop_retry [of attempts cfg m request w e 0, OF True tb] n by simp
  next
    case False
    with "1.prems" have eq: "attempts = retry_count cfg" by simp
    show ?thesis
      unfolding loop_give_up [of attempts cfg m request w e 0, OF eq tb] using e eq by simp
  qed
qed


lemma try_block_ok:
  "res_ok res \<Longrightarrow> res_json res = Inr v \<Longrightarrow>
   \<exists>r k. try_block cfg method (Resolves res) = (Inr r, k) \<and> error r = None \<and>
     (\<not> (method = Some ''DELETE'' \<and> res_content_length res = Some ''0'') \<longrightarrow> data r = v)"
  by (cases "deleteHandling cfg") (simp_all add: try_block_def)

text \<open>
  C4. With a retry count \<open>N \<ge> 0\<close>, one run of \<open>handleRequest\<close> calls the transport at
  most \<open>N + 1\<close> times, whatever the transport does. If every call of the transport
  rejects, it is called exactly \<open>N + 1\<close> times and the result is the error made from the
  last rejection, with null data. With \<open>N = 2\<close> and a transport that rejects twice and
  then answers with an ok response whose body decodes, it is called exactly three times and
  the result carries no error. With \<open>N = 0\<close> it is called exactly once: the retry callback
  is not called and nothing is waited.
\<close>

theorem handleRequest_retry_budget:
  assumes N: "0 \<le> retry_count cfg"
  shows
  "fetch_calls (snd (handleRequest cfg request method w)) \<le> fetch_calls w + nat (retry_count cfg) + 1 \<and>
   ((\<forall>n. \<exists>e. request n = Rejects e) \<longrightarrow>
      fetch_calls (snd (handleRequest cfg request method w)) = fetch_calls w + nat (retry_count cfg) + 1 \<and>
      (\<exists>e. request (fetch_calls w + nat (retry_count cfg)) = Rejects e \<and>
           fst (handleRequest cfg request method w) = \<lparr>data = JNull, error = Some (final_error e)\<rparr>)) \<and>
   (retry_count cfg = 2 \<and> request (fetch_calls w) = Rejects e1 \<and>
    request (fetch_calls w + 1) = Rejects e2 \<and> request (fetch_calls w + 2) = Resolves res \<and>
    res_ok res \<and> res_json res = Inr v \<longrightarrow>
      fetch_calls (snd (handleRequest cfg request method w)) = fetch_calls w + 3 \<and>
      error (fst (handleRequest cfg request method w)) = None \<and>
      (\<not> (method = Some ''DELETE'' \<and> res_content_length res = Some ''0'') \<longrightarrow>
         data (fst (handleRequest cfg request method w)) = v)) \<and>
   (retry_count cfg = 0 \<longrightarrow>
      fetch_calls (snd (handleRequest cfg request method w)) = fetch_calls w + 1 \<and>
      onRetry_calls (snd (handleRequest cfg request method w)) = onRetry_calls w \<and>
      slept (snd (handleRequest cfg request method w)) = slept w)"
proof -
  have bound: "fetch_calls (snd (handleRequest cfg request method w)) \<le> fetch_calls w + nat (retry_count cfg) + 1"
    using loop_calls_le [of cfg request "method" 0 w] N by (simp add: handleRequest_def nat_add_distrib)
  have fails: "(\<forall>n. \<exists>e. request n = Rejects e) \<longrightarrow>
      fetch_calls (snd (handleRequest cfg request method w)) = fetch_calls w + nat (retry_count cfg) + 1 \<and>
      (\<exists>e. request (fetch_calls w + nat (retry_count cfg)) = Rejects e \<and>
           fst (handleRequest cfg request method w) = \<lparr>data = JNull, error = Some (final_error e)\<rparr>)"
  proof
    assume "\<forall>n. \<exists>e. request n = Rejects e"
    from loop_all_reject [OF this, of 0 cfg w "method"] N
    show "fetch_calls (snd (handleRequest cfg request method w)) = fetch_calls w + nat (retry_count cfg) + 1 \<and>
      (\<exists>e. request (fetch_calls w + nat (retry_count cfg)) = Rejects e \<and>
           fst (handleRequest cfg request method w) = \<lparr>data = JNull, error = Some (final_error e)\<rparr>)"
      by (simp add: handleRequest_def)
  qed
  have twice: "retry_count cfg = 2 \<and> request (fetch_calls w) = Rejects e1 \<and>
    request (fetch_calls w + 1) = Rejects e2 \<and> request (fetch_calls w + 2) = Resolves res \<and>
    res_ok res \<and> res_json res = Inr v \<longrightarrow>
      fetch_calls (snd (handleRequest cfg request method w)) = fetch_calls w + 3 \<and>
      error (fst (handleRequest cfg request method w)) = None \<and>
      (\<not> (method = Some ''DELETE'' \<and> res_content_length res = Some ''0'') \<longrightarrow>
         data (fst (handleRequest cfg request method w)) = v)"
  proof
    assume a: "retry_count cfg = 2 \<and> request (fetch_calls w) = Rejects e1 \<and>
      request (fetch_calls w + 1) = Rejects e2 \<and> request (fetch_calls w + 2) = Resolves res \<and>
      res_ok res \<and> res_json res = Inr v"
    then obtain r k where r: "try_block cfg method (Resolves res) = (Inr r, k)" "error r = None"
      "\<not> (method = Some ''DELETE'' \<and> res_content_length res = Some ''0'') \<longrightarrow> data r = v"
      using try_block_ok [of res v cfg "method"] by blast
    define w1 where "w1 = w\<lparr>fetch_calls := fetch_calls w + 1, body_reads := body_reads w + 0,
          onRetry_calls := onRetry_calls w + (if retry_onRetry cfg then 1 else 0),
          slept := slept w + retry_delay cfg\<rparr>"
    define w2 where "w2 = w1\<lparr>fetch_calls := fetch_calls w1 + 1, body_reads := body_reads w1 + 0,
          onRetry_calls := onRetry_calls w1 + (if retry_onRetry cfg then 1 else 0),
          slept := slept w1 + retry_delay cfg\<rparr>"
    have s1: "handleRequest_loop cfg request method 0 w = handleRequest_loop cfg request method (0 + 1) w1"
      unfolding w1_def using a by (intro loop_retry [where e = e1]) (simp_all add: try_block_def)
    have s2: "handleRequest_loop cfg request method (0 + 1) w1 = handleRequest_loop cfg request method (0 + 1 + 1) w2"
      unfolding w2_def using a by (intro loop_retry [where e = e2]) (simp_all add: try_block_def w1_def)
    have s3: "handleRequest_loop cfg request method (0 + 1 + 1) w2 =
        (r, w2\<lparr>fetch_calls := fetch_calls w2 + 1, body_reads := body_reads w2 + k\<rparr>)"
      using a r(1) by (intro loop_return) (simp_all add: w1_def w2_def)
    show "fetch_calls (snd (handleRequest cfg request method w)) = fetch_calls w + 3 \<and>
      error (fst (handleRequest cfg request method w)) = None \<and>
      (\<not> (method = Some ''DELETE'' \<and> res_content_length res = Some ''0'') \<longrightarrow>
         data (fst (handleRequest cfg request method w)) = v)"
      unfolding handleRequest_def s1 s2 s3 using r(2,3) by (simp add: w1_def w2_def)
  qed
  have zero: "retry_count cfg = 0 \<longrightarrow>
      fetch_calls (snd (handleRequest cfg request method w)) = fetch_calls w + 1 \<and>
      onRetry_calls (snd (handleRequest cfg request method w)) = onRetry_calls w \<and>
      slept (snd (handleRequest cfg request method w)) = slept w"
  proof
    assume z: "retry_count cfg = 0"
    obtain r k where tb: "try_block cfg method (request (fetch_calls w)) = (r, k)"
      by (cases "try_block cfg method (request (fetch_calls w))")
    show "fetch_calls (snd (handleRequest cfg request method w)) = fetch_calls w + 1 \<and>
      onRetry_calls (snd (handleRequest cfg request method w)) = onRetry_calls w \<and>
      slept (snd (handleRequest cfg request method w)) = slept w"
    proof (cases r)
      case (Inl e)
      with tb z show ?thesis
        by (simp add: handleRequest_def loop_give_up [of 0 cfg "method" request w e k])
    next
      case (Inr x)
      with tb z show ?thesis
        by (simp add: handleRequest_def loop_return [of 0 cfg "method" request w x k])
    qed
  qed
  from bound fails twice zero show ?thesis by blast
qed


theorem handleRequest_retry_budget_witness:
  "fetch_calls (snd (handleRequest (default_config\<lparr>retry_count := 3\<rparr>)
      (always (Rejects (Error ''offline''))) (Some ''GET'') new_world)) = 4 \<and>
   fst (handleRequest (default_config\<lparr>retry_count := 3\<rparr>)
      (always (Rejects (Error ''offline''))) (Some ''GET'') new_world) =
     \<lparr>data = JNull, error = Some (TFetchError ''offline'' None)\<rparr> \<and>
   fetch_calls (snd (handleRequest (default_config\<lparr>retry_count := 2\<rparr>)
      (rejects_then 2 (Error ''offline'')
         (Resolves \<lparr>res_ok = True, res_status = 200, res_content_length = None,
                     res_text = Inr ''[]'', res_json = Inr (JArr [])\<rparr>))
      (Some ''GET'') new_world)) = 3 \<and>
   error (fst (handleRequest (default_config\<lparr>retry_count := 2\<rparr>)
      (rejects_then 2 (Error ''offline'')
         (Resolves \<lparr>res_ok = True, res_status = 200, res_content_length = None,
                     res_text = Inr ''[]'', res_json = Inr (JArr [])\<rparr>))
      (Some ''GET'') new_world)) = None \<and>
   data (fst (handleRequest (default_config\<lparr>retry_count := 2\<rparr>)
      (rejects_then 2 (Error ''offline'')
         (Resolves \<lparr>res_ok = True, res_status = 200, res_content_length = None,
                     res_text = Inr ''[]'', res_json = Inr (JArr [])\<rparr>))
      (Some ''GET'') new_world)) = JArr [] \<and>
   fetch_calls (snd (handleRequest default_config
      (always (Rejects (Error ''offline''))) (Some ''GET'') new_world)) = 1 \<and>
   onRetry_calls (snd (handleRequest default_config
      (always (Rejects (Error ''offline''))) (Some ''GET'') new_world)) = 0"
  using
    handleRequest_retry_budget [of "default_config\<lparr>retry_count := 3\<rparr>"
      "always (Rejects (Error ''offline''))" "Some ''GET''" new_world]
    handleRequest_retry_budget [of "default_config\<lparr>retry_count := 2\<rparr>"
      "rejects_then 2 (Error ''offline'')
         (Resolves \<lparr>res_ok = True, res_status = 200, res_content_length = None,
                     res_text = Inr ''[]'', res_json = Inr (JArr [])\<rparr>)"
      "Some ''GET''" new_world "Error ''offline''" "Error ''offline''"
      "\<lparr>res_ok = True, res_status = 200, res_content_length = None,
                           res_text = Inr ''[]'', res_json = Inr (JArr [])\<rparr>" "JArr []"]
    handleRequest_retry_budget [of default_config
      "always (Rejects (Error ''offline''))" "Some ''GET''" new_world]
  by (simp add: default_config_def new_world_def final_error_def DEFAULT_RETRY_COUNT_def
        always_def rejects_then_def)

section \<open>Responses that are not ok\<close>

text \<open>
  C7. When the call of the transport resolves with a response that is not ok, whose body
  text is \<open>errorText\<close>, \<open>handleRequest\<close> returns at once: the transport has been called
  once, the retry callback not at all and nothing was waited, whatever the retry count
  \<open>N \<ge> 0\<close>; the result has null data and an error with \<open>errorText\<close> as message and the
  status of the response. The same holds at every later turn of the loop: a response that
  is not ok is never followed by another attempt.
\<close>

theorem non_ok_response_not_retried:
  assumes "0 \<le> retry_count cfg"
    and "request (fetch_calls w) = Resolves res"
    and "\<not> res_ok res"
    and "res_text res = Inr errorText"
  shows "handleRequest cfg request method w =
     (\<lparr>data = JNull, error = Some (TFetchError errorText (Some (res_status res)))\<rparr>,
      w\<lparr>fetch_calls := fetch_calls w + 1, body_reads := body_reads w + 1\<rparr>) \<and>
    (\<forall>attempts. attempts \<le> retry_count cfg \<longrightarrow>
       handleRequest_loop cfg request method attempts w =
         (\<lparr>data = JNull, error = Some (TFetchError errorText (Some (res_status res)))\<rparr>,
          w\<lparr>fetch_calls := fetch_calls w + 1, body_reads := body_reads w + 1\<rparr>))"
proof -
  have "try_block cfg method (request (fetch_calls w)) =
      (Inr \<lparr>data = JNull, error = Some (TFetchError errorText (Some (res_status res)))\<rparr>, 1)"
    using assms by (simp add: try_block_def)
  then have "\<forall>attempts. attempts \<le> retry_count cfg \<longrightarrow>
       handleRequest_loop cfg request method attempts w =
         (\<lparr>data = JNull, error = Some (TFetchError errorText (Some (res_status res)))\<rparr>,
          w\<lparr>fetch_calls := fetch_calls w + 1, body_reads := body_reads w + 1\<rparr>)"
    by (simp add: loop_return)
  with assms(1) show ?thesis by (simp add: handleRequest_def)
qed

theorem non_ok_response_not_retried_witness:
  "handleRequest (default_config\<lparr>retry_count := 5, retry_onRetry := True\<rparr>)
     (always (Resolves \<lparr>res_ok = False, res_status = 404, res_content_length = None,
                         res_text = Inr ''Not Found'', res_json = Inl (Error ''Unexpected token N'')\<rparr>))
     (Some ''GET'') new_world =
   (\<lparr>data = JNull, error = Some (TFetchError ''Not Found'' (Some 404))\<rparr>,
    \<lparr>cache = [], fetch_calls = 1, body_reads = 1, clock_reads = 0, onRetry_calls = 0, slept = 0\<rparr>)"
  using non_ok_response_not_retried [of "default_config\<lparr>retry_count := 5, retry_onRetry := True\<rparr>"
      "always (Resolves \<lparr>res_ok = False, res_status = 404, res_content_length = None,
                         res_text = Inr ''Not Found'', res_json = Inl (Error ''Unexpected token N'')\<rparr>)"
      new_world _ "''Not Found''" "Some ''GET''"]
  by (simp add: default_config_def new_world_def always_def)


section \<open>Successful DELETE responses\<close>

text \<open>
  C6, as the code has it. The delete-handling mode decides the result of an ok response to
  a DELETE call only when the \<open>Content-Length\<close> header of the response is \<open>"0"\<close>:
  then mode \<open>empty\<close> returns null data without reading the body, mode \<open>status\<close> returns
  the status code as data without reading the body, and mode \<open>json\<close> decodes the body and
  returns null data, not an error, when decoding fails. An ok response to a DELETE call with
  any other \<open>Content-Length\<close>, or none, is decoded as JSON in every mode.
\<close>

theorem delete_handling_zero_length:
  assumes "0 \<le> retry_count cfg"
    and "request (fetch_calls w) = Resolves res"
    and "res_ok res"
  shows "(res_content_length res = Some ''0'' \<longrightarrow>
          handleRequest cfg request (Some ''DELETE'') w =
            (case deleteHandling cfg of
               DeleteEmpty \<Rightarrow>
                 (\<lparr>data = JNull, error = None\<rparr>,
                  w\<lparr>fetch_calls := fetch_calls w + 1, body_reads := body_reads w + 0\<rparr>)
             | DeleteStatus \<Rightarrow>
                 (\<lparr>data = JNum (res_status res), error = None\<rparr>,
                  w\<lparr>fetch_calls := fetch_calls w + 1, body_reads := body_reads w + 0\<rparr>)
             | DeleteJson \<Rightarrow>
                 (\<lparr>data = (case res_json res of Inr v \<Rightarrow> v | Inl e \<Rightarrow> JNull), error = None\<rparr>,
                  w\<lparr>fetch_calls := fetch_calls w + 1, body_reads := body_reads w + 1\<rparr>))) \<and>
         (res_content_length res \<noteq> Some ''0'' \<and> res_json res = Inr v \<longrightarrow>
          handleRequest cfg request (Some ''DELETE'') w =
            (\<lparr>data = v, error = None\<rparr>,
             w\<lparr>fetch_calls := fetch_calls w + 1, body_reads := body_reads w + 1\<rparr>))"
proof (intro conjI impI)
  assume cl: "res_content_length res = Some ''0''"
  show "handleRequest cfg request (Some ''DELETE'') w =
            (case deleteHandling cfg of
               DeleteEmpty \<Rightarrow>
                 (\<lparr>data = JNull, error = None\<rparr>,
                  w\<lparr>fetch_calls := fetch_calls w + 1, body_reads := body_reads w + 0\<rparr>)
             | DeleteStatus \<Rightarrow>
                 (\<lparr>data = JNum (res_status res), error = None\<rparr>,
                  w\<lparr>fetch_calls := fetch_calls w + 1, body_reads := body_reads w + 0\<rparr>)
             | DeleteJson \<Rightarrow>
                 (\<lparr>data = (case res_json res of Inr v \<Rightarrow> v | Inl e \<Rightarrow> JNull), error = None\<rparr>,
                  w\<lparr>fetch_calls := fetch_calls w + 1, body_reads := body_reads w + 1\<rparr>))"
  proof (cases "deleteHandling cfg")
    case DeleteEmpty
    with assms cl show ?thesis
      unfolding handleRequest_def by (simp add: loop_return [where k = 0] try_block_def)
  next
    case DeleteStatus
    with assms cl show ?thesis
      unfolding handleRequest_def by (simp add: loop_return [where k = 0] try_block_def)
  next
    case DeleteJson
    with assms cl show ?thesis
      unfolding handleRequest_def
      by (cases "res_json res") (simp_all add: loop_return [where k = 1] try_block_def)
  qed
next
  assume "res_content_length res \<noteq> Some ''0'' \<and> res_json res = Inr v"
  with assms show "handleRequest cfg request (Some ''DELETE'') w =
            (\<lparr>data = v, error = None\<rparr>,
             w\<lparr>fetch_calls := fetch_calls w + 1, body_reads := body_reads w + 1\<rparr>)"
    unfolding handleRequest_def by (intro loop_return) (simp_all add: try_block_def)
qed

theorem delete_handling_zero_length_witness:
  "handleRequest default_config
     (always (Resolves \<lparr>res_ok = True, res_status = 200, res_content_length = Some ''0'',
                         res_text = Inr [], res_json = Inl (Error ''Unexpected end of JSON input'')\<rparr>))
     (Some ''DELETE'') new_world =
     (\<lparr>data = JNull, error = None\<rparr>,
      \<lparr>cache = [], fetch_calls = 1, body_reads = 0, clock_reads = 0, onRetry_calls = 0, slept = 0\<rparr>) \<and>
   handleRequest (default_config\<lparr>deleteHandling := DeleteStatus\<rparr>)
     (always (Resolves \<lparr>res_ok = True, res_status = 200, res_content_length = Some ''0'',
                         res_text = Inr [], res_json = Inl (Error ''Unexpected end of JSON input'')\<rparr>))
     (Some ''DELETE'') new_world =
     (\<lparr>data = JNum 200, error = None\<rparr>,
      \<lparr>cache = [], fetch_calls = 1, body_reads = 0, clock_reads = 0, onRetry_calls = 0, slept = 0\<rparr>) \<and>
   handleRequest (default_config\<lparr>deleteHandling := DeleteJson\<rparr>)
     (always (Resolves \<lparr>res_ok = True, res_status = 200, res_content_length = Some ''0'',
                         res_text = Inr [], res_json = Inl (Error ''Unexpected end of JSON input'')\<rparr>))
     (Some ''DELETE'') new_world =
     (\<lparr>data = JNull, error = None\<rparr>,
      \<lparr>cache = [], fetch_calls = 1, body_reads = 1, clock_reads = 0, onRetry_calls = 0, slept = 0\<rparr>) \<and>
   handleRequest (default_config\<lparr>deleteHandling := DeleteStatus\<rparr>)
     (always (Resolves \<lparr>res_ok = True, res_status = 200, res_content_length = Some ''2'',
                         res_text = Inr ''{}'', res_json = Inr (JObj [])\<rparr>))
     (Some ''DELETE'') new_world =
     (\<lparr>data = JObj [], error = None\<rparr>,
      \<lparr>cache = [], fetch_calls = 1, body_reads = 1, clock_reads = 0, onRetry_calls = 0, slept = 0\<rparr>)"
  using
    delete_handling_zero_length [of default_config
      "always (Resolves \<lparr>res_ok = True, res_status = 200, res_content_length = Some ''0'',
                         res_text = Inr [], res_json = Inl (Error ''Unexpected end of JSON input'')\<rparr>)"
      new_world _ JNull]
    delete_handling_zero_length [of "default_config\<lparr>deleteHandling := DeleteStatus\<rparr>"
      "always (Resolves \<lparr>res_ok = True, res_status = 200, res_content_length = Some ''0'',
                         res_text = Inr [], res_json = Inl (Error ''Unexpected end of JSON input'')\<rparr>)"
      new_world _ JNull]
    delete_handling_zero_length [of "default_config\<lparr>deleteHandling := DeleteJson\<rparr>"
      "always (Resolves \<lparr>res_ok = True, res_status = 200, res_content_length = Some ''0'',
                         res_text = Inr [], res_json = Inl (Error ''Unexpected end of JSON input'')\<rparr>)"
      new_world _ JNull]
    delete_handling_zero_length [of "default_config\<lparr>deleteHandling := DeleteStatus\<rparr>"
      "always (Resolves \<lparr>res_ok = True, res_status = 200, res_content_length = Some ''2'',
                         res_text = Inr ''{}'', res_json = Inr (JObj [])\<rparr>)"
      new_world _ "JObj []"]
  by (simp add: default_config_def new_world_def always_def DEFAULT_RETRY_COUNT_def)

text \<open>
  The claim as stated fails where the response has a body: in mode \<open>status\<close> the client
  returns the decoded body and not the status code, and in mode \<open>empty\<close> it decodes the
  body and returns it.
\<close>

theorem delete_handling_counterexample:
  "data (fst (delete (default_config\<lparr>deleteHandling := DeleteStatus\<rparr>)
      (scripted_host (always (Resolves \<lparr>res_ok = True, res_status = 200, res_content_length = Some ''16'',
                         res_text = Inr ''{deleted:true}'', res_json = Inr (JObj [(''deleted'', JBool True)])\<rparr>)))
      (UString ''https://api.example.com/users/1'') None new_world)) \<noteq> JNum 200 \<and>
   data (fst (delete default_config
      (scripted_host (always (Resolves \<lparr>res_ok = True, res_status = 200, res_content_length = None,
                         res_text = Inr ''7'', res_json = Inr (JNum 7)\<rparr>)))
      (UString ''https://api.example.com/users/1'') None new_world)) \<noteq> JNull \<and>
   body_reads (snd (delete default_config
      (scripted_host (always (Resolves \<lparr>res_ok = True, res_status = 200, res_content_length = None,
                         res_text = Inr ''7'', res_json = Inr (JNum 7)\<rparr>)))
      (UString ''https://api.example.com/users/1'') None new_world)) = 1 \<and>
   deleteHandling default_config = DeleteEmpty"
  by (simp add: delete_def handleRequest_def handleRequest_loop.simps try_block_def
        default_config_def new_world_def always_def scripted_host_def options_cacheEnabled_def
        DEFAULT_RETRY_COUNT_def Let_def)

section \<open>The eviction sweep\<close>

lemma insert_by_insort:
  fixes f :: "'a \<Rightarrow> int"
  shows "insert_by (\<lambda>a b. f a - f b) x ys = insort_key f x ys"
  by (induction ys) simp_all

lemma Array_sort_sort_key:
  fixes f :: "'a \<Rightarrow> int"
  shows "Array_sort (\<lambda>a b. f a - f b) xs = sort_key f xs"
  by (induction xs) (simp_all add: Array_sort_def insert_by_insort sort_key_def)

lemma foldl_Map_delete: "foldl (\<lambda>c key. Map_delete key c) c keys = filter (\<lambda>p. fst p \<notin> set keys) c"
proof (induction keys arbitrary: c)
  case Nil
  then show ?case by simp
next
  case (Cons k keys)
  show ?case by (simp add: Cons.IH) (simp add: Map_delete_def conj_commute)
qed

lemma entriesToDelete_sort_key:
  "entriesToDelete c = map fst (take (length c div 4) (sort_key (\<lambda>p. timestamp (snd p)) c))"
  by (simp add: entriesToDelete_def Array_sort_sort_key [of "\<lambda>p. timestamp (snd p)"])

lemma length_entriesToDelete: "length (entriesToDelete c) = length c div 4"
  by (simp add: entriesToDelete_sort_key)

lemma cleanupCache_cache:
  "cache (cleanupCache cfg w) =
     (if cache_maxCachedEntries cfg \<le> int (length (cache w))
      then filter (\<lambda>p. fst p \<notin> set (entriesToDelete (cache w))) (cache w) else cache w)"
  by (simp add: cleanupCache_def Let_def foldl_Map_delete)

lemma mset_take_sort_key: "mset (take n (sort_key f c)) \<subseteq># mset c"
proof -
  have "mset (take n (sort_key f c)) \<subseteq># mset (sort_key f c)"
    by (metis append_take_drop_id mset_subset_eq_add_left mset_append)
  then show ?thesis by simp
qed

lemma length_filter_keys_le:
  assumes "mset S \<subseteq># mset c"
  shows "length (filter (\<lambda>p. fst p \<notin> fst ` set S) c) + length S \<le> length c"
proof -
  have "filter (\<lambda>p. fst p \<in> fst ` set S) S = S"
    by (simp add: filter_id_conv)
  then have "mset S = filter_mset (\<lambda>p. fst p \<in> fst ` set S) (mset S)"
    by (metis mset_filter)
  also have "\<dots> \<subseteq># filter_mset (\<lambda>p. fst p \<in> fst ` set S) (mset c)"
    using assms by (rule multiset_filter_mono)
  finally have "size (mset S) \<le> size (filter_mset (\<lambda>p. fst p \<in> fst ` set S) (mset c))"
    by (rule size_mset_mono)
  then have "length S \<le> length (filter (\<lambda>p. fst p \<in> fst ` set S) c)"
    by (simp flip: mset_filter)
  moreover have "length c = length (filter (\<lambda>p. fst p \<in> fst ` set S) c) +
      length (filter (\<lambda>p. fst p \<notin> fst ` set S) c)"
    using sum_length_filter_compl [of "\<lambda>p. fst p \<in> fst ` set S" c] by simp
  ultimately show ?thesis by simp
qed

lemma length_cleanupCache_le:
  "length (cache (cleanupCache cfg w)) + (if cache_maxCachedEntries cfg \<le> int (length (cache w))
       then length (cache w) div 4 else 0) \<le> length (cache w)"
  using length_filter_keys_le [OF mset_take_sort_key, of "length (cache w) div 4" "\<lambda>p. timestamp (snd p)" "cache w"]
  by (simp add: cleanupCache_cache entriesToDelete_sort_key)

lemma length_Map_set_le: "length (Map_set k v m) \<le> Suc (length m)"
  by (induction m) simp_all

lemma length_saveToCache_le:
  assumes "int (length (cache w)) \<le> max (cache_maxCachedEntries cfg) 4"
  shows "int (length (cache (saveToCache cfg rt key d age w))) \<le> max (cache_maxCachedEntries cfg) 4"
proof -
  have "length (cache (saveToCache cfg rt key d age w)) \<le> Suc (length (cache (cleanupCache cfg w)))"
    by (simp add: saveToCache_def Let_def length_Map_set_le)
  moreover have "length (cache (cleanupCache cfg w)) +
      (if cache_maxCachedEntries cfg \<le> int (length (cache w)) then length (cache w) div 4 else 0)
      \<le> length (cache w)"
    by (rule length_cleanupCache_le)
  moreover have "1 \<le> length (cache w) div 4 \<or> length (cache w) < 4" by arith
  ultimately show ?thesis
    using assms by (cases "cache_maxCachedEntries cfg \<le> int (length (cache w))") (auto simp: max_def)
qed

lemma take_before_drop_sorted:
  fixes f :: "'a \<Rightarrow> int"
  assumes "p \<in> set (take n (sort_key f c))" "q \<in> set (drop n (sort_key f c))"
  shows "f p \<le> f q"
proof -
  have "sorted (map f (sort_key f c))" by simp
  then have "sorted (map f (take n (sort_key f c)) @ map f (drop n (sort_key f c)))"
    by (metis append_take_drop_id map_append)
  then have "\<forall>x \<in> set (map f (take n (sort_key f c))). \<forall>y \<in> set (map f (drop n (sort_key f c))). x \<le> y"
    unfolding sorted_append by blast
  with assms show ?thesis by (simp only: set_map) blast
qed

lemma distinct_keys_entry:
  assumes "distinct (map fst c)" "p \<in> set c" "q \<in> set c" "fst p = fst q"
  shows "p = q"
  using assms by (metis eq_key_imp_eq_value prod.collapse)

lemma sweep_exact:
  assumes d: "distinct (map fst c)"
  defines "S \<equiv> take (length c div 4) (sort_key (\<lambda>p. timestamp (snd p)) c)"
  shows "length (filter (\<lambda>p. fst p \<notin> fst ` set S) c) = length c - length c div 4"
    and "distinct (map fst S)"
    and "\<forall>p \<in> set c. \<forall>q \<in> set c. fst p \<in> fst ` set S \<and> fst q \<notin> fst ` set S \<longrightarrow>
           timestamp (snd p) \<le> timestamp (snd q)"
proof -
  have dc: "distinct c" using d by (rule distinct_map [THEN iffD1, THEN conjunct1])
  have sub: "set S \<subseteq> set c" unfolding S_def by (metis set_take_subset set_sort)
  have dS: "distinct S" unfolding S_def using dc by (simp add: distinct_take)
  have lenS: "length S = length c div 4" unfolding S_def by simp
  have keys: "\<And>p. p \<in> set c \<Longrightarrow> (fst p \<in> fst ` set S) = (p \<in> set S)"
  proof -
    fix p assume p: "p \<in> set c"
    show "(fst p \<in> fst ` set S) = (p \<in> set S)"
    proof
      assume "fst p \<in> fst ` set S"
      then obtain q where q: "q \<in> set S" "fst p = fst q" by auto
      with sub have "q \<in> set c" by blast
      from distinct_keys_entry [OF d p this q(2)] q(1) show "p \<in> set S" by simp
    qed auto
  qed
  have "filter (\<lambda>p. fst p \<in> fst ` set S) c = filter (\<lambda>p. p \<in> set S) c"
    by (rule filter_cong [OF refl]) (simp add: keys)
  moreover have "length (filter (\<lambda>p. p \<in> set S) c) = length S"
  proof -
    have "set (filter (\<lambda>p. p \<in> set S) c) = set S" using sub by auto
    moreover have "distinct (filter (\<lambda>p. p \<in> set S) c)" using dc by simp
    ultimately show ?thesis using dS by (metis distinct_card)
  qed
  moreover have "length c = length (filter (\<lambda>p. fst p \<in> fst ` set S) c) +
      length (filter (\<lambda>p. fst p \<notin> fst ` set S) c)"
    using sum_length_filter_compl [of "\<lambda>p. fst p \<in> fst ` set S" c] by simp
  ultimately show "length (filter (\<lambda>p. fst p \<notin> fst ` set S) c) = length c - length c div 4"
    using lenS by simp
  have "distinct (map fst (sort_key (\<lambda>p. timestamp (snd p)) c))"
    using d by (metis distinct_map distinct_sort set_sort)
  then show "distinct (map fst S)"
    unfolding S_def by (simp add: distinct_take flip: take_map)
  show "\<forall>p \<in> set c. \<forall>q \<in> set c. fst p \<in> fst ` set S \<and> fst q \<notin> fst ` set S \<longrightarrow>
           timestamp (snd p) \<le> timestamp (snd q)"
  proof (intro ballI impI)
    fix p q assume p: "p \<in> set c" and q: "q \<in> set c"
      and pq: "fst p \<in> fst ` set S \<and> fst q \<notin> fst ` set S"
    from pq keys [OF p] have pS: "p \<in> set S" by simp
    from pq keys [OF q] have "q \<notin> set S" by simp
    moreover have "set c = set (take (length c div 4) (sort_key (\<lambda>p. timestamp (snd p)) c)) \<union>
        set (drop (length c div 4) (sort_key (\<lambda>p. timestamp (snd p)) c))"
      by (metis append_take_drop_id set_append set_sort)
    ultimately have "q \<in> set (drop (length c div 4) (sort_key (\<lambda>p. timestamp (snd p)) c))"
      unfolding S_def using q by blast
    with pS show "timestamp (snd p) \<le> timestamp (snd q)"
      unfolding S_def by (rule take_before_drop_sorted [of p _ "\<lambda>p. timestamp (snd p)"])
  qed
qed

text \<open>
  C8. \<open>cleanupCache\<close> on a cache of \<open>s\<close> entries (one per key) with limit
  \<open>maxCachedEntries\<close>: if \<open>s\<close> is below the limit nothing changes. Otherwise the sweep
  runs and removes the entries whose keys are in \<open>entriesToDelete\<close>: these are
  \<open>floor(s / 4)\<close> different keys of the cache, so exactly \<open>floor(s / 4)\<close> entries go and
  \<open>s - floor(s / 4)\<close> stay, and every removed entry has a timestamp no later than that of
  any entry that stays. A cache of at most three entries is never changed.
\<close>

theorem cleanupCache_evicts_oldest_quarter:
  assumes "distinct (map fst (cache w))"
  shows "(int (length (cache w)) < cache_maxCachedEntries cfg \<longrightarrow> cleanupCache cfg w = w) \<and>
         (cache_maxCachedEntries cfg \<le> int (length (cache w)) \<longrightarrow>
            cache (cleanupCache cfg w) =
              filter (\<lambda>p. fst p \<notin> set (entriesToDelete (cache w))) (cache w) \<and>
            length (entriesToDelete (cache w)) = length (cache w) div 4 \<and>
            distinct (entriesToDelete (cache w)) \<and>
            set (entriesToDelete (cache w)) \<subseteq> fst ` set (cache w) \<and>
            length (cache (cleanupCache cfg w)) = length (cache w) - length (cache w) div 4 \<and>
            (\<forall>p \<in> set (cache w). \<forall>q \<in> set (cache w).
               fst p \<in> set (entriesToDelete (cache w)) \<and> fst q \<notin> set (entriesToDelete (cache w)) \<longrightarrow>
               timestamp (snd p) \<le> timestamp (snd q))) \<and>
         (length (cache w) \<le> 3 \<longrightarrow> cleanupCache cfg w = w)"
proof (intro conjI impI)
  assume "int (length (cache w)) < cache_maxCachedEntries cfg"
  then show "cleanupCache cfg w = w" by (simp add: cleanupCache_def)
next
  assume "length (cache w) \<le> 3"
  then have "length (cache w) div 4 = 0" by simp
  then show "cleanupCache cfg w = w" by (simp add: cleanupCache_def entriesToDelete_def)
next
  assume M: "cache_maxCachedEntries cfg \<le> int (length (cache w))"
  note sw = sweep_exact [OF assms]
  have set_eq: "set (entriesToDelete (cache w)) =
      fst ` set (take (length (cache w) div 4) (sort_key (\<lambda>p. timestamp (snd p)) (cache w)))"
    by (simp add: entriesToDelete_sort_key)
  show c: "cache (cleanupCache cfg w) =
      filter (\<lambda>p. fst p \<notin> set (entriesToDelete (cache w))) (cache w)"
    using M by (simp add: cleanupCache_cache)
  show "length (entriesToDelete (cache w)) = length (cache w) div 4"
    by (rule length_entriesToDelete)
  show "distinct (entriesToDelete (cache w))"
    using sw(2) by (simp add: entriesToDelete_sort_key)
  show "set (entriesToDelete (cache w)) \<subseteq> fst ` set (cache w)"
    unfolding set_eq by (metis image_mono set_take_subset set_sort)
  show "length (cache (cleanupCache cfg w)) = length (cache w) - length (cache w) div 4"
    unfolding c set_eq by (rule sw(1))
  show "\<forall>p \<in> set (cache w). \<forall>q \<in> set (cache w).
          fst p \<in> set (entriesToDelete (cache w)) \<and> fst q \<notin> set (entriesToDelete (cache w)) \<longrightarrow>
          timestamp (snd p) \<le> timestamp (snd q)"
    unfolding set_eq by (rule sw(3))
qed

theorem cleanupCache_evicts_oldest_quarter_witness:
  "cache (cleanupCache (default_config\<lparr>cache_maxCachedEntries := 5\<rparr>)
      (new_world\<lparr>cache :=
         [(''a'', \<lparr>entry_data = JNum 1, timestamp = 30, expiresAt = 90\<rparr>),
          (''b'', \<lparr>entry_data = JNum 2, timestamp = 10, expiresAt = 90\<rparr>),
          (''c'', \<lparr>entry_data = JNum 3, timestamp = 50, expiresAt = 90\<rparr>),
          (''d'', \<lparr>entry_data = JNum 4, timestamp = 10, expiresAt = 90\<rparr>),
          (''e'', \<lparr>entry_data = JNum 5, timestamp = 40, expiresAt = 90\<rparr>)]\<rparr>)) =
     [(''a'', \<lparr>entry_data = JNum 1, timestamp = 30, expiresAt = 90\<rparr>),
      (''c'', \<lparr>entry_data = JNum 3, timestamp = 50, expiresAt = 90\<rparr>),
      (''d'', \<lparr>entry_data = JNum 4, timestamp = 10, expiresAt = 90\<rparr>),
      (''e'', \<lparr>entry_data = JNum 5, timestamp = 40, expiresAt = 90\<rparr>)] \<and>
   cleanupCache (default_config\<lparr>cache_maxCachedEntries := 3\<rparr>)
      (new_world\<lparr>cache :=
         [(''a'', \<lparr>entry_data = JNum 1, timestamp = 30, expiresAt = 90\<rparr>),
          (''b'', \<lparr>entry_data = JNum 2, timestamp = 10, expiresAt = 90\<rparr>),
          (''c'', \<lparr>entry_data = JNum 3, timestamp = 50, expiresAt = 90\<rparr>)]\<rparr>) =
      new_world\<lparr>cache :=
         [(''a'', \<lparr>entry_data = JNum 1, timestamp = 30, expiresAt = 90\<rparr>),
          (''b'', \<lparr>entry_data = JNum 2, timestamp = 10, expiresAt = 90\<rparr>),
          (''c'', \<lparr>entry_data = JNum 3, timestamp = 50, expiresAt = 90\<rparr>)]\<rparr> \<and>
   cleanupCache default_config
      (new_world\<lparr>cache :=
         [(''a'', \<lparr>entry_data = JNum 1, timestamp = 30, expiresAt = 90\<rparr>),
          (''b'', \<lparr>entry_data = JNum 2, timestamp = 10, expiresAt = 90\<rparr>),
          (''c'', \<lparr>entry_data = JNum 3, timestamp = 50, expiresAt = 90\<rparr>),
          (''d'', \<lparr>entry_data = JNum 4, timestamp = 10, expiresAt = 90\<rparr>),
          (''e'', \<lparr>entry_data = JNum 5, timestamp = 40, expiresAt = 90\<rparr>)]\<rparr>) =
      new_world\<lparr>cache :=
         [(''a'', \<lparr>entry_data = JNum 1, timestamp = 30, expiresAt = 90\<rparr>),
          (''b'', \<lparr>entry_data = JNum 2, timestamp = 10, expiresAt = 90\<rparr>),
          (''c'', \<lparr>entry_data = JNum 3, timestamp = 50, expiresAt = 90\<rparr>),
          (''d'', \<lparr>entry_data = JNum 4, timestamp = 10, expiresAt = 90\<rparr>),
          (''e'', \<lparr>entry_data = JNum 5, timestamp = 40, expiresAt = 90\<rparr>)]\<rparr>"
  using
    cleanupCache_evicts_oldest_quarter [of
      "new_world\<lparr>cache :=
         [(''a'', \<lparr>entry_data = JNum 1, timestamp = 30, expiresAt = 90\<rparr>),
          (''b'', \<lparr>entry_data = JNum 2, timestamp = 10, expiresAt = 90\<rparr>),
          (''c'', \<lparr>entry_data = JNum 3, timestamp = 50, expiresAt = 90\<rparr>),
          (''d'', \<lparr>entry_data = JNum 4, timestamp = 10, expiresAt = 90\<rparr>),
          (''e'', \<lparr>entry_data = JNum 5, timestamp = 40, expiresAt = 90\<rparr>)]\<rparr>"
      "default_config\<lparr>cache_maxCachedEntries := 5\<rparr>"]
    cleanupCache_evicts_oldest_quarter [of
      "new_world\<lparr>cache :=
         [(''a'', \<lparr>entry_data = JNum 1, timestamp = 30, expiresAt = 90\<rparr>),
          (''b'', \<lparr>entry_data = JNum 2, timestamp = 10, expiresAt = 90\<rparr>),
          (''c'', \<lparr>entry_data = JNum 3, timestamp = 50, expiresAt = 90\<rparr>)]\<rparr>"
      "default_config\<lparr>cache_maxCachedEntries := 3\<rparr>"]
    cleanupCache_evicts_oldest_quarter [of
      "new_world\<lparr>cache :=
         [(''a'', \<lparr>entry_data = JNum 1, timestamp = 30, expiresAt = 90\<rparr>),
          (''b'', \<lparr>entry_data = JNum 2, timestamp = 10, expiresAt = 90\<rparr>),
          (''c'', \<lparr>entry_data = JNum 3, timestamp = 50, expiresAt = 90\<rparr>),
          (''d'', \<lparr>entry_data = JNum 4, timestamp = 10, expiresAt = 90\<rparr>),
          (''e'', \<lparr>entry_data = JNum 5, timestamp = 40, expiresAt = 90\<rparr>)]\<rparr>"
      default_config]
  by (simp add: new_world_def default_config_def entriesToDelete_def Array_sort_def
        DEFAULT_MAX_CACHED_ENTRIES_def)

section \<open>The size of the cache\<close>

text \<open>
  C2, as the code has it. After any sequence of \<open>saveToCache\<close> calls, each of which runs
  \<open>cleanupCache\<close> first, the cache holds at most \<open>max(maxCachedEntries, 4)\<close> entries,
  provided it did before. So the limit \<open>maxCachedEntries\<close> itself is kept whenever it is
  at least 4; below that the sweep removes \<open>floor(size / 4) = 0\<close> entries and the cache
  grows up to four entries.
\<close>

theorem cache_size_after_insertions:
  assumes "int (length (cache w)) \<le> max (cache_maxCachedEntries cfg) 4"
  shows "int (length (cache (fold (\<lambda>(key, d, age). saveToCache cfg rt key d age) ops w)))
           \<le> max (cache_maxCachedEntries cfg) 4"
  using assms
proof (induction ops arbitrary: w)
  case Nil
  then show ?case by simp
next
  case (Cons op ops)
  obtain key d age where op: "op = (key, d, age)" by (cases op)
  from Cons.prems have "int (length (cache (saveToCache cfg rt key d age w))) \<le> max (cache_maxCachedEntries cfg) 4"
    by (rule length_saveToCache_le)
  from Cons.IH [OF this] show ?case by (simp add: op)
qed

theorem cache_size_after_insertions_witness:
  "int (length (cache new_world)) \<le> max (cache_maxCachedEntries (default_config\<lparr>cache_maxCachedEntries := 4\<rparr>)) 4 \<and>
   int (length (cache (fold (\<lambda>(key, d, age). saveToCache (default_config\<lparr>cache_maxCachedEntries := 4\<rparr>)
                           (scripted_host (always (Rejects (Error ''unused'')))) key d age)
      [(''a'', JNum 1, None), (''b'', JNum 2, None), (''c'', JNum 3, None), (''d'', JNum 4, None),
       (''e'', JNum 5, None), (''f'', JNum 6, Some 10)] new_world))) \<le> 4"
  using cache_size_after_insertions [of new_world "default_config\<lparr>cache_maxCachedEntries := 4\<rparr>"
      "scripted_host (always (Rejects (Error ''unused'')))"
      "[(''a'', JNum 1, None), (''b'', JNum 2, None), (''c'', JNum 3, None), (''d'', JNum 4, None),
       (''e'', JNum 5, None), (''f'', JNum 6, Some 10)]"]
  by (simp add: new_world_def default_config_def)

text \<open>
  The claim as stated fails for a limit of 3, the limit of the repository's own cache test:
  four insertions under different keys leave four entries.
\<close>

lemmas eval_cache = saveToCache_def cleanupCache_def entriesToDelete_def Array_sort_def Map_delete_def
  new_world_def default_config_def scripted_host_def Let_def

theorem cache_size_counterexample:
  "length (cache (fold (\<lambda>(key, d, age). saveToCache (default_config\<lparr>cache_maxCachedEntries := 3\<rparr>)
                           (scripted_host (always (Rejects (Error ''unused'')))) key d age)
      [(''GET|/posts/1||'', JNum 1, None), (''GET|/posts/2||'', JNum 2, None),
       (''GET|/posts/3||'', JNum 3, None), (''GET|/posts/4||'', JNum 4, None)] new_world)) = 4 \<and>
   cache_maxCachedEntries (default_config\<lparr>cache_maxCachedEntries := 3\<rparr>) = 3"
  by (simp add: eval_cache)

lemmas eval_request = handleRequest_def handleRequest_loop.simps try_block_def
  default_config_def new_world_def always_def scripted_host_def options_cacheEnabled_def
  DEFAULT_RETRY_COUNT_def Let_def

section \<open>Cache keys and headers\<close>

text \<open>
  Given a plain record of headers, \<open>generateCacheKey\<close> does put the authorization and
  content-type entries into the key: changing the value of one of them changes the key.
\<close>

lemma join_Cons: "join sep (y # zs) = y @ concat (map (\<lambda>z. sep @ z) zs)"
  by (induction sep "y # zs" arbitrary: y zs rule: join.induct) simp_all

lemma join_append_Cons:
  "join sep (xs @ y # zs) = concat (map (\<lambda>x. x @ sep) xs) @ y @ concat (map (\<lambda>z. sep @ z) zs)"
proof (induction xs)
  case Nil
  show ?case by (simp add: join_Cons)
next
  case (Cons x xs)
  obtain a as where "xs @ y # zs = a # as" by (cases "xs @ y # zs") auto
  with Cons show ?case by simp
qed

lemma insert_by_same_key:
  assumes "\<And>y. cmp (k, v) y = cmp (k, v') y"
  shows "\<exists>as bs. insert_by cmp (k, v) zs = as @ (k, v) # bs \<and> insert_by cmp (k, v') zs = as @ (k, v') # bs"
proof (induction zs)
  case Nil
  show ?case by (intro exI [of _ "[]"]) simp
next
  case (Cons z zs)
  then obtain as bs where ab: "insert_by cmp (k, v) zs = as @ (k, v) # bs"
      "insert_by cmp (k, v') zs = as @ (k, v') # bs" by blast
  show ?case
  proof (cases "cmp (k, v) z \<le> 0")
    case True
    then have "insert_by cmp (k, v) (z # zs) = [] @ (k, v) # z # zs"
      "insert_by cmp (k, v') (z # zs) = [] @ (k, v') # z # zs"
      using assms [of z] by simp_all
    then show ?thesis by blast
  next
    case False
    then have "insert_by cmp (k, v) (z # zs) = (z # as) @ (k, v) # bs"
      "insert_by cmp (k, v') (z # zs) = (z # as) @ (k, v') # bs"
      using assms [of z] ab by simp_all
    then show ?thesis by blast
  qed
qed

lemma insert_by_into_related:
  assumes "\<And>x. cmp x (k, v) = cmp x (k, v')"
  shows "\<exists>as' bs'. insert_by cmp x (as @ (k, v) # bs) = as' @ (k, v) # bs' \<and>
                  insert_by cmp x (as @ (k, v') # bs) = as' @ (k, v') # bs'"
proof (induction as)
  case Nil
  show ?case
  proof (cases "cmp x (k, v) \<le> 0")
    case True
    then have "insert_by cmp x ([] @ (k, v) # bs) = [x] @ (k, v) # bs"
      "insert_by cmp x ([] @ (k, v') # bs) = [x] @ (k, v') # bs"
      using assms [of x] by simp_all
    then show ?thesis by blast
  next
    case False
    then have "insert_by cmp x ([] @ (k, v) # bs) = [] @ (k, v) # insert_by cmp x bs"
      "insert_by cmp x ([] @ (k, v') # bs) = [] @ (k, v') # insert_by cmp x bs"
      using assms [of x] by simp_all
    then show ?thesis by blast
  qed
next
  case (Cons a as)
  then obtain as' bs' where ab: "insert_by cmp x (as @ (k, v) # bs) = as' @ (k, v) # bs'"
      "insert_by cmp x (as @ (k, v') # bs) = as' @ (k, v') # bs'" by blast
  show ?case
  proof (cases "cmp x a \<le> 0")
    case True
    then have "insert_by cmp x ((a # as) @ (k, v) # bs) = (x # a # as) @ (k, v) # bs"
      "insert_by cmp x ((a # as) @ (k, v') # bs) = (x # a # as) @ (k, v') # bs"
      by simp_all
    then show ?thesis by blast
  next
    case False
    then have "insert_by cmp x ((a # as) @ (k, v) # bs) = (a # as') @ (k, v) # bs'"
      "insert_by cmp x ((a # as) @ (k, v') # bs) = (a # as') @ (k, v') # bs'"
      using ab by simp_all
    then show ?thesis by blast
  qed
qed

lemma Array_sort_one_value:
  fixes lc :: "string \<Rightarrow> string \<Rightarrow> int"
  defines "cmp \<equiv> \<lambda>a b. lc (fst a) (fst b)"
  shows "\<exists>as bs. Array_sort cmp (xs @ (k, v) # ys) = as @ (k, v) # bs \<and>
                Array_sort cmp (xs @ (k, v') # ys) = as @ (k, v') # bs"
proof (induction xs)
  case Nil
  show ?case
    using insert_by_same_key [of cmp k v v' "foldr (insert_by cmp) ys []"]
    by (simp add: Array_sort_def cmp_def)
next
  case (Cons x xs)
  then obtain as bs where "Array_sort cmp (xs @ (k, v) # ys) = as @ (k, v) # bs"
      "Array_sort cmp (xs @ (k, v') # ys) = as @ (k, v') # bs" by blast
  then show ?case
    using insert_by_into_related [of cmp k v v' x as bs]
    by (simp add: Array_sort_def cmp_def)
qed

lemma essentialHeaders_one_value:
  assumes ess: "toLowerCase k = ''authorization'' \<or> toLowerCase k = ''content-type''"
    and ne: "v \<noteq> v'"
  shows "essentialHeaders lc (Some (HRecord (xs @ (k, v) # ys))) \<noteq>
         essentialHeaders lc (Some (HRecord (xs @ (k, v') # ys)))"
proof -
  let ?P = "\<lambda>(key, value). toLowerCase key = ''authorization'' \<or> toLowerCase key = ''content-type''"
  let ?fmt = "\<lambda>(key, value). key @ '':'' @ value"
  obtain as bs where ab:
    "Array_sort (\<lambda>a b. lc (fst a) (fst b)) (filter ?P xs @ (k, v) # filter ?P ys) = as @ (k, v) # bs"
    "Array_sort (\<lambda>a b. lc (fst a) (fst b)) (filter ?P xs @ (k, v') # filter ?P ys) = as @ (k, v') # bs"
    using Array_sort_one_value [of lc "filter ?P xs" k v "filter ?P ys" v'] by blast
  show ?thesis
    using ne ess by (simp add: essentialHeaders_def essential_entries_def ab join_append_Cons)
qed

lemma generateCacheKey_record_value:
  assumes "toLowerCase k = ''authorization'' \<or> toLowerCase k = ''content-type''" and "v \<noteq> v'"
  shows "generateCacheKey lc u m (Some (HRecord (xs @ (k, v) # ys))) b \<noteq>
         generateCacheKey lc u m (Some (HRecord (xs @ (k, v') # ys))) b"
  using essentialHeaders_one_value [OF assms, of lc xs ys] by (simp add: generateCacheKey_def)

text \<open>
  The six operations pass the \<open>Headers\<close> object built by \<open>mergeHeaders\<close>, of which
  \<open>Object.entries\<close> lists nothing: the header segment of their keys is empty whatever the
  headers are.
\<close>

lemma Headers_object_has_no_essential_entries:
  "essentialHeaders lc (Some (HHeaders h)) = []"
  by (simp add: essentialHeaders_def essential_entries_def Array_sort_def)

lemma public_keys_ignore_headers:
  "generateCacheKey lc url m (Some (HHeaders (mergeHeaders sources))) b =
   generateCacheKey lc url m (Some (HHeaders [])) b"
  by (simp add: generateCacheKey_def Headers_object_has_no_essential_entries)

lemmas eval_string = toUpperCase_def toLowerCase_def upper_char_def lower_char_def Let_def
  char_of_def bit_simps

text \<open>
  C3 holds of the keys that the operations compute in every respect but one: a change of the
  authorization header does not change the key. Two \<open>get\<close> calls on one URL, with caching
  enabled, the first with \<open>Authorization: Bearer t\<close> and the second with
  \<open>Authorization: Bearer u\<close>: the merged headers differ, both keys are
  \<open>GET|https://api.example.com/me||\<close>, and the second call is served the response cached
  for the first without any call of the transport. The same headers given to
  \<open>generateCacheKey\<close> as plain records give two different keys.
\<close>

theorem authorization_missing_from_public_keys:
  "mergeHeaders [Some (HRecord []), Some (HRecord [(''Authorization'', ''Bearer t'')])] =
     [(''authorization'', ''Bearer t'')] \<and>
   mergeHeaders [Some (HRecord []), Some (HRecord [(''Authorization'', ''Bearer u'')])] =
     [(''authorization'', ''Bearer u'')] \<and>
   generateCacheKey collate_equal (UString ''https://api.example.com/me'') ''GET''
      (Some (HHeaders (mergeHeaders [Some (HRecord []), Some (HRecord [(''Authorization'', ''Bearer t'')])])))
      JUndefined = ''GET|https://api.example.com/me||'' \<and>
   generateCacheKey collate_equal (UString ''https://api.example.com/me'') ''GET''
      (Some (HHeaders (mergeHeaders [Some (HRecord []), Some (HRecord [(''Authorization'', ''Bearer u'')])])))
      JUndefined = ''GET|https://api.example.com/me||'' \<and>
   generateCacheKey collate_equal (UString ''https://api.example.com/me'') ''GET''
      (Some (HRecord [(''Authorization'', ''Bearer t'')])) JUndefined =
     ''GET|https://api.example.com/me|Authorization:Bearer t|'' \<and>
   generateCacheKey collate_equal (UString ''https://api.example.com/me'') ''GET''
      (Some (HRecord [(''Authorization'', ''Bearer u'')])) JUndefined =
     ''GET|https://api.example.com/me|Authorization:Bearer u|'' \<and>
   get (default_config\<lparr>cache_enabled := True\<rparr>)
      (scripted_host (always (Resolves \<lparr>res_ok = True, res_status = 200, res_content_length = None,
                         res_text = Inr ''ignored'', res_json = Inr (JObj [(''user'', JStr ''t'')])\<rparr>)))
      (UString ''https://api.example.com/me'')
      (Some \<lparr>opt_headers = Some (HRecord [(''Authorization'', ''Bearer u'')]), opt_cache = None\<rparr>)
      (snd (get (default_config\<lparr>cache_enabled := True\<rparr>)
        (scripted_host (always (Resolves \<lparr>res_ok = True, res_status = 200, res_content_length = None,
                         res_text = Inr ''ignored'', res_json = Inr (JObj [(''user'', JStr ''t'')])\<rparr>)))
        (UString ''https://api.example.com/me'')
        (Some \<lparr>opt_headers = Some (HRecord [(''Authorization'', ''Bearer t'')]), opt_cache = None\<rparr>)
        new_world)) =
     (\<lparr>data = JObj [(''user'', JStr ''t'')], error = None\<rparr>,
      \<lparr>cache = [(''GET|https://api.example.com/me||'',
                  \<lparr>entry_data = JObj [(''user'', JStr ''t'')], timestamp = 0, expiresAt = 300001\<rparr>)],
       fetch_calls = 1, body_reads = 1, clock_reads = 3, onRetry_calls = 0, slept = 0\<rparr>)"
  by (simp add: get_def getFromCache_def saveToCache_def cleanupCache_def options_cacheMaxAge_def
        eval_request eval_string generateCacheKey_def essentialHeaders_def
        essential_entries_def Array_sort_def bodyPart_def mergeHeaders_def options_headers_def
        DEFAULT_MAX_CACHED_ENTRIES_def Time_Minute_def entriesToDelete_def)

section \<open>The shape of a result\<close>

lemma try_block_at_most_one:
  "try_block cfg m out = (Inr r, k) \<Longrightarrow> error r = None \<or> data r = JNull"
  by (auto simp: try_block_def split: outcome.splits if_splits sum.splits DeleteHandling.splits)

lemma loop_at_most_one:
  "error (fst (handleRequest_loop cfg request m attempts w)) = None \<or>
   data (fst (handleRequest_loop cfg request m attempts w)) = JNull"
proof (induction cfg request m attempts w rule: handleRequest_loop.induct)
  case (1 cfg request m attempts w)
  show ?case
  proof (cases "attempts \<le> retry_count cfg")
    case False
    then show ?thesis by (simp add: loop_exhausted)
  next
    case le: True
    obtain r k where tb: "try_block cfg m (request (fetch_calls w)) = (r, k)"
      by (cases "try_block cfg m (request (fetch_calls w))")
    show ?thesis
    proof (cases r)
      case (Inr res)
      with le tb try_block_at_most_one [of cfg m "request (fetch_calls w)" res k]
      show ?thesis by (simp add: loop_return)
    next
      case (Inl e)
      show ?thesis
      proof (cases "attempts < retry_count cfg")
        case True
        from "1.IH" [OF le tb [symmetric] Inl True]
        show ?thesis using True tb Inl by (simp add: loop_retry)
      next
        case False
        with le have "attempts = retry_count cfg" by simp
        with tb Inl show ?thesis by (simp add: loop_give_up)
      qed
    qed
  qed
qed

lemma handleRequest_at_most_one:
  "handleRequest cfg request m w = (r, w') \<Longrightarrow> error r = None \<or> data r = JNull"
  using loop_at_most_one [of cfg request m 0 w] by (simp add: handleRequest_def)

lemma get_at_most_one:
  "get cfg rt url options w = (r, w') \<Longrightarrow> error r = None \<or> data r = JNull"
  by (auto simp: get_def Let_def split: prod.splits if_splits dest: handleRequest_at_most_one)

lemma delete_at_most_one:
  "delete cfg rt url options w = (r, w') \<Longrightarrow> error r = None \<or> data r = JNull"
  by (auto simp: delete_def Let_def split: prod.splits if_splits dest: handleRequest_at_most_one)

lemma head_at_most_one:
  "head cfg rt url options w = (r, w') \<Longrightarrow> error r = None \<or> data r = JNull"
  by (auto simp: head_def Let_def split: prod.splits if_splits dest: handleRequest_at_most_one)

lemma post_at_most_one:
  "post cfg rt url body options w = Inr (r, w') \<Longrightarrow> error r = None \<or> data r = JNull"
  by (auto simp: post_def Let_def split: option.splits sum.splits prod.splits if_splits
        dest: handleRequest_at_most_one)

lemma put_at_most_one:
  "put cfg rt url body options w = Inr (r, w') \<Longrightarrow> error r = None \<or> data r = JNull"
  by (auto simp: put_def Let_def split: option.splits sum.splits prod.splits if_splits
        dest: handleRequest_at_most_one)

lemma patch_at_most_one:
  "patch cfg rt url body options w = Inr (r, w') \<Longrightarrow> error r = None \<or> data r = JNull"
  by (auto simp: patch_def Let_def split: option.splits sum.splits prod.splits if_splits
        dest: handleRequest_at_most_one)

text \<open>
  C1, as the code has it. The result of every completed operation (\<open>get\<close>, \<open>post\<close>,
  \<open>put\<close>, \<open>patch\<close>, \<open>delete\<close>, \<open>head\<close>) has at most one of its two fields non-null:
  \<open>data\<close> and \<open>error\<close> are never both non-null, and whenever \<open>error\<close> is non-null
  \<open>data\<close> is null. Both may be null.
\<close>

theorem result_never_both:
  "(error (fst (get cfg rt url options w)) = None \<or> data (fst (get cfg rt url options w)) = JNull) \<and>
   (error (fst (delete cfg rt url options w)) = None \<or> data (fst (delete cfg rt url options w)) = JNull) \<and>
   (error (fst (head cfg rt url options w)) = None \<or> data (fst (head cfg rt url options w)) = JNull) \<and>
   (post cfg rt url body options w = Inr (r1, w1) \<longrightarrow> error r1 = None \<or> data r1 = JNull) \<and>
   (put cfg rt url body options w = Inr (r2, w2) \<longrightarrow> error r2 = None \<or> data r2 = JNull) \<and>
   (patch cfg rt url body options w = Inr (r3, w3) \<longrightarrow> error r3 = None \<or> data r3 = JNull)"
  using get_at_most_one [OF prod.collapse [symmetric], of cfg rt url options w]
    delete_at_most_one [OF prod.collapse [symmetric], of cfg rt url options w]
    head_at_most_one [OF prod.collapse [symmetric], of cfg rt url options w]
    post_at_most_one [of cfg rt url body options w r1 w1]
    put_at_most_one [of cfg rt url body options w r2 w2]
    patch_at_most_one [of cfg rt url body options w r3 w3]
  by blast

theorem result_never_both_witness:
  "post default_config
      (scripted_host (always (Resolves \<lparr>res_ok = False, res_status = 500, res_content_length = None,
                         res_text = Inr ''boom'', res_json = Inl (Error ''Unexpected token b'')\<rparr>)))
      (UString ''https://api.example.com/users'')
      (Some \<lparr>body_type = Some ''text'', body_data = JStr ''hello''\<rparr>) None new_world =
    Inr (\<lparr>data = JNull, error = Some (TFetchError ''boom'' (Some 500))\<rparr>,
         \<lparr>cache = [], fetch_calls = 1, body_reads = 1, clock_reads = 0, onRetry_calls = 0, slept = 0\<rparr>) \<and>
   put default_config
      (scripted_host (always (Resolves \<lparr>res_ok = False, res_status = 500, res_content_length = None,
                         res_text = Inr ''boom'', res_json = Inl (Error ''Unexpected token b'')\<rparr>)))
      (UString ''https://api.example.com/users'')
      (Some \<lparr>body_type = Some ''text'', body_data = JStr ''hello''\<rparr>) None new_world =
    Inr (\<lparr>data = JNull, error = Some (TFetchError ''boom'' (Some 500))\<rparr>,
         \<lparr>cache = [], fetch_calls = 1, body_reads = 1, clock_reads = 0, onRetry_calls = 0, slept = 0\<rparr>) \<and>
   patch default_config
      (scripted_host (always (Resolves \<lparr>res_ok = False, res_status = 500, res_content_length = None,
                         res_text = Inr ''boom'', res_json = Inl (Error ''Unexpected token b'')\<rparr>)))
      (UString ''https://api.example.com/users'')
      (Some \<lparr>body_type = Some ''text'', body_data = JStr ''hello''\<rparr>) None new_world =
    Inr (\<lparr>data = JNull, error = Some (TFetchError ''boom'' (Some 500))\<rparr>,
         \<lparr>cache = [], fetch_calls = 1, body_reads = 1, clock_reads = 0, onRetry_calls = 0, slept = 0\<rparr>) \<and>
   (error \<lparr>data = JNull, error = Some (TFetchError ''boom'' (Some 500))\<rparr> = None \<or>
    data \<lparr>data = JNull, error = Some (TFetchError ''boom'' (Some 500))\<rparr> = JNull)"
  using result_never_both [where cfg = default_config
      and rt = "scripted_host (always (Resolves \<lparr>res_ok = False, res_status = 500, res_content_length = None,
                         res_text = Inr ''boom'', res_json = Inl (Error ''Unexpected token b'')\<rparr>))"
      and url = "UString ''https://api.example.com/users''"
      and body = "Some \<lparr>body_type = Some ''text'', body_data = JStr ''hello''\<rparr>"
      and options = None and w = new_world
      and ?r1.0 = "\<lparr>data = JNull, error = Some (TFetchError ''boom'' (Some 500))\<rparr>"
      and ?w1.0 = "\<lparr>cache = [], fetch_calls = 1, body_reads = 1, clock_reads = 0, onRetry_calls = 0, slept = 0\<rparr>"
      and ?r2.0 = "\<lparr>data = JNull, error = Some (TFetchError ''boom'' (Some 500))\<rparr>"
      and ?w2.0 = "\<lparr>cache = [], fetch_calls = 1, body_reads = 1, clock_reads = 0, onRetry_calls = 0, slept = 0\<rparr>"
      and ?r3.0 = "\<lparr>data = JNull, error = Some (TFetchError ''boom'' (Some 500))\<rparr>"
      and ?w3.0 = "\<lparr>cache = [], fetch_calls = 1, body_reads = 1, clock_reads = 0, onRetry_calls = 0, slept = 0\<rparr>"]
  by (simp add: post_def put_def patch_def prepareBody_def serializeBody_def eval_request)

text \<open>
  The claim as stated fails for a successful DELETE response of length zero under the default
  mode \<open>empty\<close>: both fields of the result are null.
\<close>

theorem result_not_exactly_one_counterexample:
  "data (fst (delete default_config
      (scripted_host (always (Resolves \<lparr>res_ok = True, res_status = 204, res_content_length = Some ''0'',
                         res_text = Inr [], res_json = Inl (Error ''Unexpected end of JSON input'')\<rparr>)))
      (UString ''https://api.example.com/users/1'') None new_world)) = JNull \<and>
   error (fst (delete default_config
      (scripted_host (always (Resolves \<lparr>res_ok = True, res_status = 204, res_content_length = Some ''0'',
                         res_text = Inr [], res_json = Inl (Error ''Unexpected end of JSON input'')\<rparr>)))
      (UString ''https://api.example.com/users/1'') None new_world)) = None"
  by (simp add: delete_def eval_request)

section \<open>What crosses the public boundary\<close>

text \<open>One turn of the loop of \<open>handleRequest\<close>, for each way it can go.\<close>

lemma aloop_return:
  "attempts \<le> retry_count cfg \<Longrightarrow> async_try_block cfg m (request (fetch_calls w)) = (Inr r, k) \<Longrightarrow>
   async_handleRequest_loop cfg onRetry request m attempts w =
     (Inr r, w\<lparr>fetch_calls := fetch_calls w + 1, body_reads := body_reads w + k\<rparr>)"
  by (subst async_handleRequest_loop.simps) simp

lemma aloop_retry:
  "attempts < retry_count cfg \<Longrightarrow> async_try_block cfg m (request (fetch_calls w)) = (Inl e, k) \<Longrightarrow>
   (retry_onRetry cfg \<Longrightarrow> onRetry (onRetry_calls w) = None) \<Longrightarrow>
   async_handleRequest_loop cfg onRetry request m attempts w =
     async_handleRequest_loop cfg onRetry request m (attempts + 1)
       (w\<lparr>fetch_calls := fetch_calls w + 1, body_reads := body_reads w + k,
          onRetry_calls := onRetry_calls w + (if retry_onRetry cfg then 1 else 0),
          slept := slept w + retry_delay cfg\<rparr>)"
  by (subst async_handleRequest_loop.simps) simp


lemma aloop_give_up:
  "attempts = retry_count cfg \<Longrightarrow> async_try_block cfg m (request (fetch_calls w)) = (Inl (Some e), k) \<Longrightarrow>
   async_handleRequest_loop cfg onRetry request m attempts w =
     (Inr \<lparr>data = JNull, error = Some (final_error e)\<rparr>,
      w\<lparr>fetch_calls := fetch_calls w + 1, body_reads := body_reads w + k\<rparr>)"
  by (subst async_handleRequest_loop.simps) simp


lemma aloop_exhausted:
  "retry_count cfg < attempts \<Longrightarrow>
   async_handleRequest_loop cfg onRetry request m attempts w =
     (Inr \<lparr>data = JNull, error = Some (TFetchError ''Max retries exceeded'' None)\<rparr>, w)"
  by (subst async_handleRequest_loop.simps) simp





text \<open>
  On a host that behaves (a callback that returns, reasons that are \<open>Error\<close> objects,
  header names and values that \<open>new Headers\<close> accepts) no promise of \<open>handleRequest\<close>,
  \<open>get\<close>, \<open>delete\<close> or \<open>head\<close> is rejected, and the operations are those of the
  section on the public operations: a promise fulfilled with their \<open>Result\<close>, or, for
  \<open>post\<close>, \<open>put\<close> and \<open>patch\<close>, rejected with what they throw.
\<close>

lemma async_try_block_as_settled:
  "async_try_block cfg m (as_settled out) =
     (case try_block cfg m out of (Inl e, k) \<Rightarrow> (Inl (Some e), k) | (Inr r, k) \<Rightarrow> (Inr r, k))"
  by (cases out)
    (auto simp: async_try_block_def try_block_def split: sum.splits DeleteHandling.splits)

lemma aloop_refines:
  "async_handleRequest_loop cfg (every None) (\<lambda>n. as_settled (request n)) m attempts w =
     (Inr (fst (handleRequest_loop cfg request m attempts w)),
      snd (handleRequest_loop cfg request m attempts w))"
proof (induction cfg request m attempts w rule: handleRequest_loop.induct)
  case (1 cfg request m attempts w)
  show ?case
  proof (cases "attempts \<le> retry_count cfg")
    case False
    then show ?thesis by (simp add: aloop_exhausted loop_exhausted)
  next
    case le: True
    obtain r k where tb: "try_block cfg m (request (fetch_calls w)) = (r, k)"
      by (cases "try_block cfg m (request (fetch_calls w))")
    show ?thesis
    proof (cases r)
      case (Inr res)
      with tb have "async_try_block cfg m (as_settled (request (fetch_calls w))) = (Inr res, k)"
        by (simp add: async_try_block_as_settled)
      with le tb Inr show ?thesis by (simp add: aloop_return loop_return)
    next
      case (Inl e)
      with tb have atb: "async_try_block cfg m (as_settled (request (fetch_calls w))) = (Inl (Some e), k)"
        by (simp add: async_try_block_as_settled)
      show ?thesis
      proof (cases "attempts < retry_count cfg")
        case True
        have "async_handleRequest_loop cfg (every None) (\<lambda>n. as_settled (request n)) m attempts w =
            async_handleRequest_loop cfg (every None) (\<lambda>n. as_settled (request n)) m (attempts + 1)
              (w\<lparr>fetch_calls := fetch_calls w + 1, body_reads := body_reads w + k,
                 onRetry_calls := onRetry_calls w + (if retry_onRetry cfg then 1 else 0),
                 slept := slept w + retry_delay cfg\<rparr>)"
          using True atb by (intro aloop_retry) (simp_all add: every_def)
        with "1.IH" [OF le tb [symmetric] Inl True] True tb Inl
        show ?thesis by (simp add: loop_retry)
      next
        case False
        with le have eq: "attempts = retry_count cfg" by simp
        have "async_handleRequest_loop cfg (every None) (\<lambda>n. as_settled (request n)) m attempts w =
            (Inr \<lparr>data = JNull, error = Some (final_error e)\<rparr>,
             w\<lparr>fetch_calls := fetch_calls w + 1, body_reads := body_reads w + k\<rparr>)"
          using eq atb by (intro aloop_give_up) simp_all
        with eq tb Inl show ?thesis by (simp add: loop_give_up)
      qed
    qed
  qed
qed

lemma async_handleRequest_refines:
  "async_handleRequest cfg (every None) (\<lambda>n. as_settled (request n)) m w =
     (Inr (fst (handleRequest cfg request m w)), snd (handleRequest cfg request m w))"
  by (simp add: async_handleRequest_def handleRequest_def aloop_refines)

lemma async_get_refines:
  assumes "mergeHeaders_or_throw [Some (default_headers cfg), Some (options_headers options)] = Inr mh"
  shows "async_get cfg rt (\<lambda>u i n. as_settled (fetch rt u i n)) (every None) url options w =
     (Inr (fst (get cfg rt url options w)), snd (get cfg rt url options w))"
proof -
  have mh: "mh = mergeHeaders [Some (default_headers cfg), Some (options_headers options)]"
    using assms by (simp add: mergeHeaders_or_throw_def split: if_splits)
  show ?thesis
    unfolding async_get_def get_def assms
    by (simp add: Let_def case_prod_beta async_handleRequest_refines mh)
qed

lemma async_delete_refines:
  assumes "mergeHeaders_or_throw [Some (default_headers cfg), Some (options_headers options)] = Inr mh"
  shows "async_delete cfg rt (\<lambda>u i n. as_settled (fetch rt u i n)) (every None) url options w =
     (Inr (fst (delete cfg rt url options w)), snd (delete cfg rt url options w))"
proof -
  have mh: "mh = mergeHeaders [Some (default_headers cfg), Some (options_headers options)]"
    using assms by (simp add: mergeHeaders_or_throw_def split: if_splits)
  show ?thesis
    unfolding async_delete_def delete_def assms
    by (simp add: Let_def case_prod_beta async_handleRequest_refines mh)
qed

lemma async_head_refines:
  assumes "mergeHeaders_or_throw [Some (default_headers cfg), Some (options_headers options)] = Inr mh"
  shows "async_head cfg rt (\<lambda>u i n. as_settled (fetch rt u i n)) (every None) url options w =
     (Inr (fst (head cfg rt url options w)), snd (head cfg rt url options w))"
proof -
  have mh: "mh = mergeHeaders [Some (default_headers cfg), Some (options_headers options)]"
    using assms by (simp add: mergeHeaders_or_throw_def split: if_splits)
  show ?thesis
    unfolding async_head_def head_def assms
    by (simp add: Let_def case_prod_beta async_handleRequest_refines mh)
qed

lemma async_post_refines:
  assumes "mergeHeaders_or_throw [Some (default_headers cfg), Some (getHeaders (body_type b)), Some (options_headers options)] = Inr mh"
  shows "async_post cfg rt (\<lambda>u i n. as_settled (fetch rt u i n)) (every None) url (Some b) options w =
     (case post cfg rt url (Some b) options w of
        Inl e \<Rightarrow> (Inl (Some e), w)
      | Inr (r, w') \<Rightarrow> (Inr r, w'))"
proof -
  have mh: "mh = mergeHeaders [Some (default_headers cfg), Some (getHeaders (body_type b)), Some (options_headers options)]"
    using assms by (simp add: mergeHeaders_or_throw_def split: if_splits)
  show ?thesis
    unfolding async_post_def post_def
    by (simp add: assms Let_def case_prod_beta async_handleRequest_refines mh [symmetric]
        split: sum.splits)
qed

lemma async_put_refines:
  assumes "mergeHeaders_or_throw [Some (default_headers cfg), Some (getHeaders (body_type b)), Some (options_headers options)] = Inr mh"
  shows "async_put cfg rt (\<lambda>u i n. as_settled (fetch rt u i n)) (every None) url (Some b) options w =
     (case put cfg rt url (Some b) options w of
        Inl e \<Rightarrow> (Inl (Some e), w)
      | Inr (r, w') \<Rightarrow> (Inr r, w'))"
proof -
  have mh: "mh = mergeHeaders [Some (default_headers cfg), Some (getHeaders (body_type b)), Some (options_headers options)]"
    using assms by (simp add: mergeHeaders_or_throw_def split: if_splits)
  show ?thesis
    unfolding async_put_def put_def
    by (simp add: assms Let_def case_prod_beta async_handleRequest_refines mh [symmetric]
        split: sum.splits)
qed

lemma async_patch_refines:
  assumes "mergeHeaders_or_throw [Some (default_headers cfg), Some (getHeaders (body_type b)), Some (options_headers options)] = Inr mh"
  shows "async_patch cfg rt (\<lambda>u i n. as_settled (fetch rt u i n)) (every None) url (Some b) options w =
     (case patch cfg rt url (Some b) options w of
        Inl e \<Rightarrow> (Inl (Some e), w)
      | Inr (r, w') \<Rightarrow> (Inr r, w'))"
proof -
  have mh: "mh = mergeHeaders [Some (default_headers cfg), Some (getHeaders (body_type b)), Some (options_headers options)]"
    using assms by (simp add: mergeHeaders_or_throw_def split: if_splits)
  show ?thesis
    unfolding async_patch_def patch_def
    by (simp add: assms Let_def case_prod_beta async_handleRequest_refines mh [symmetric]
        split: sum.splits)
qed



























section \<open>Falsy values in the cache\<close>

lemma cleanupCache_fetch_calls: "fetch_calls (cleanupCache cfg w) = fetch_calls w"
  by (simp add: cleanupCache_def Let_def)

lemma saveToCache_fetch_calls: "fetch_calls (saveToCache cfg rt key d age w) = fetch_calls w"
  by (simp add: saveToCache_def Let_def cleanupCache_fetch_calls)

lemma loop_calls_gt:
  "attempts \<le> retry_count cfg \<Longrightarrow>
   fetch_calls w < fetch_calls (snd (handleRequest_loop cfg request m attempts w))"
proof (induction cfg request m attempts w rule: handleRequest_loop.induct)
  case (1 cfg request m attempts w)
  obtain r k where tb: "try_block cfg m (request (fetch_calls w)) = (r, k)"
    by (cases "try_block cfg m (request (fetch_calls w))")
  show ?case
  proof (cases r)
    case (Inr res)
    with "1.prems" tb show ?thesis by (simp add: loop_return)
  next
    case (Inl e)
    show ?thesis
    proof (cases "attempts < retry_count cfg")
      case True
      from "1.IH" [OF "1.prems" tb [symmetric] Inl True] True
      show ?thesis using tb Inl by (simp add: loop_retry)
    next
      case False
      with "1.prems" have "attempts = retry_count cfg" by simp
      with tb Inl show ?thesis by (simp add: loop_give_up)
    qed
  qed
qed

text \<open>
  C10. When caching is enabled for a \<open>get\<close> call and the cache holds, under the key of the
  call, an entry that has not expired and whose data is falsy, \<open>getFromCache\<close> returns that
  data but the call does not: it goes on to \<open>handleRequest\<close>, calls the transport at least
  once (the retry count being at least 0) and returns what \<open>handleRequest\<close> returns.
\<close>

theorem falsy_cached_value_is_a_miss:
  assumes "options_cacheEnabled cfg options"
    and "ckey = generateCacheKey (localeCompare rt) url ''GET''
           (Some (HHeaders (mergeHeaders [Some (default_headers cfg), Some (options_headers options)])))
           JUndefined"
    and "map_of (cache w) ckey = Some entry"
    and "\<not> truthy (entry_data entry)"
    and "\<not> (expiresAt entry \<noteq> 0 \<and> Date_now rt (clock_reads w) > expiresAt entry)"
    and "0 \<le> retry_count cfg"
  shows "getFromCache rt ckey w = (entry_data entry, w\<lparr>clock_reads := clock_reads w + 1\<rparr>) \<and>
         fst (get cfg rt url options w) =
           fst (handleRequest cfg
                  (fetch rt (toString url)
                     \<lparr>init_method = None,
                      init_headers = mergeHeaders [Some (default_headers cfg), Some (options_headers options)],
                      init_body = JUndefined\<rparr>)
                  (Some ''GET'') (w\<lparr>clock_reads := clock_reads w + 1\<rparr>)) \<and>
         fetch_calls w < fetch_calls (snd (get cfg rt url options w))"
proof -
  have g: "getFromCache rt ckey w = (entry_data entry, w\<lparr>clock_reads := clock_reads w + 1\<rparr>)"
    using assms(3,5) by (auto simp: getFromCache_def Let_def)
  have c: "fetch_calls w <
      fetch_calls (snd (handleRequest cfg
                  (fetch rt (toString url)
                     \<lparr>init_method = None,
                      init_headers = mergeHeaders [Some (default_headers cfg), Some (options_headers options)],
                      init_body = JUndefined\<rparr>)
                  (Some ''GET'') (w\<lparr>clock_reads := clock_reads w + 1\<rparr>)))"
    using loop_calls_gt [of 0 cfg "w\<lparr>clock_reads := clock_reads w + 1\<rparr>"] assms(6)
    by (simp add: handleRequest_def)
  show ?thesis
    using g c assms(1,4) unfolding assms(2)
    by (simp add: get_def Let_def case_prod_beta saveToCache_fetch_calls)
qed

theorem falsy_cached_value_is_a_miss_witness:
  "fst (get (default_config\<lparr>cache_enabled := True\<rparr>)
      (scripted_host (always (Resolves \<lparr>res_ok = True, res_status = 200, res_content_length = None,
                         res_text = Inr ''1'', res_json = Inr (JNum 1)\<rparr>)))
      (UString ''https://api.example.com/count'') None
      (new_world\<lparr>cache := [(''GET|https://api.example.com/count||'',
                               \<lparr>entry_data = JNum 0, timestamp = 0, expiresAt = 300000\<rparr>)]\<rparr>)) =
     \<lparr>data = JNum 1, error = None\<rparr> \<and>
   fetch_calls (snd (get (default_config\<lparr>cache_enabled := True\<rparr>)
      (scripted_host (always (Resolves \<lparr>res_ok = True, res_status = 200, res_content_length = None,
                         res_text = Inr ''1'', res_json = Inr (JNum 1)\<rparr>)))
      (UString ''https://api.example.com/count'') None
      (new_world\<lparr>cache := [(''GET|https://api.example.com/count||'',
                               \<lparr>entry_data = JNum 0, timestamp = 0, expiresAt = 300000\<rparr>)]\<rparr>))) = 1 \<and>
   \<not> truthy (JNum 0)"
  using falsy_cached_value_is_a_miss [where cfg = "default_config\<lparr>cache_enabled := True\<rparr>"
      and rt = "scripted_host (always (Resolves \<lparr>res_ok = True, res_status = 200, res_content_length = None,
                         res_text = Inr ''1'', res_json = Inr (JNum 1)\<rparr>))"
      and url = "UString ''https://api.example.com/count''" and options = None
      and w = "new_world\<lparr>cache := [(''GET|https://api.example.com/count||'',
                               \<lparr>entry_data = JNum 0, timestamp = 0, expiresAt = 300000\<rparr>)]\<rparr>"
      and ckey = "''GET|https://api.example.com/count||''"
      and entry = "\<lparr>entry_data = JNum 0, timestamp = 0, expiresAt = 300000\<rparr>"]
  by (simp add: get_def getFromCache_def saveToCache_def cleanupCache_def options_cacheMaxAge_def
        eval_request eval_string generateCacheKey_def essentialHeaders_def
        essential_entries_def Array_sort_def bodyPart_def mergeHeaders_def options_headers_def
        DEFAULT_MAX_CACHED_ENTRIES_def)

text \<open>
  The other five operations test the cached value in the same way.
\<close>

lemma getFromCache_unexpired:
  assumes "map_of (cache w) ckey = Some entry"
    and "\<not> (expiresAt entry \<noteq> 0 \<and> Date_now rt (clock_reads w) > expiresAt entry)"
  shows "getFromCache rt ckey w = (entry_data entry, w\<lparr>clock_reads := clock_reads w + 1\<rparr>)"
  using assms by (auto simp: getFromCache_def Let_def)

lemma handleRequest_calls_gt:
  "0 \<le> retry_count cfg \<Longrightarrow> fetch_calls w < fetch_calls (snd (handleRequest cfg request m w))"
  using loop_calls_gt [of 0 cfg w request m] by (simp add: handleRequest_def)

lemma falsy_cached_value_is_a_miss_delete:
  assumes "options_cacheEnabled cfg options"
    and "ckey = generateCacheKey (localeCompare rt) url ''DELETE''
           (Some (HHeaders (mergeHeaders [Some (default_headers cfg), Some (options_headers options)])))
           JUndefined"
    and "map_of (cache w) ckey = Some entry"
    and "\<not> truthy (entry_data entry)"
    and "\<not> (expiresAt entry \<noteq> 0 \<and> Date_now rt (clock_reads w) > expiresAt entry)"
    and "0 \<le> retry_count cfg"
  shows "fst (delete cfg rt url options w) =
           fst (handleRequest cfg
                  (fetch rt (toString url)
                     \<lparr>init_method = Some ''DELETE'',
                      init_headers = mergeHeaders [Some (default_headers cfg), Some (options_headers options)],
                      init_body = JUndefined\<rparr>)
                  (Some ''DELETE'') (w\<lparr>clock_reads := clock_reads w + 1\<rparr>)) \<and>
         fetch_calls w < fetch_calls (snd (delete cfg rt url options w))"
  using getFromCache_unexpired [OF assms(3,5)] assms(1,4)
    handleRequest_calls_gt [OF assms(6), of "w\<lparr>clock_reads := clock_reads w + 1\<rparr>"]
  unfolding assms(2)
  by (simp add: delete_def Let_def case_prod_beta saveToCache_fetch_calls)

lemma falsy_cached_value_is_a_miss_head:
  assumes "options_cacheEnabled cfg options"
    and "ckey = generateCacheKey (localeCompare rt) url ''HEAD''
           (Some (HHeaders (mergeHeaders [Some (default_headers cfg), Some (options_headers options)])))
           JUndefined"
    and "map_of (cache w) ckey = Some entry"
    and "\<not> truthy (entry_data entry)"
    and "\<not> (expiresAt entry \<noteq> 0 \<and> Date_now rt (clock_reads w) > expiresAt entry)"
    and "0 \<le> retry_count cfg"
  shows "fst (head cfg rt url options w) =
           fst (handleRequest cfg
                  (fetch rt (toString url)
                     \<lparr>init_method = Some ''HEAD'',
                      init_headers = mergeHeaders [Some (default_headers cfg), Some (options_headers options)],
                      init_body = JUndefined\<rparr>)
                  (Some ''HEAD'') (w\<lparr>clock_reads := clock_reads w + 1\<rparr>)) \<and>
         fetch_calls w < fetch_calls (snd (head cfg rt url options w))"
  using getFromCache_unexpired [OF assms(3,5)] assms(1,4)
    handleRequest_calls_gt [OF assms(6), of "w\<lparr>clock_reads := clock_reads w + 1\<rparr>"]
  unfolding assms(2)
  by (simp add: head_def Let_def case_prod_beta saveToCache_fetch_calls)

lemma falsy_cached_value_is_a_miss_post:
  assumes "options_cacheEnabled cfg options"
    and "prepareBody (Some b) = Inr actualBody"
    and "serializeBody actualBody = Inr serialized"
    and "ckey = generateCacheKey (localeCompare rt) url ''POST''
           (Some (HHeaders (mergeHeaders [Some (default_headers cfg), Some (getHeaders (body_type b)),
                                         Some (options_headers options)])))
           serialized"
    and "map_of (cache w) ckey = Some entry"
    and "\<not> truthy (entry_data entry)"
    and "\<not> (expiresAt entry \<noteq> 0 \<and> Date_now rt (clock_reads w) > expiresAt entry)"
    and "0 \<le> retry_count cfg"
  shows "\<exists>w'. post cfg rt url (Some b) options w =
           Inr (fst (handleRequest cfg
                  (fetch rt (toString url)
                     \<lparr>init_method = Some ''POST'',
                      init_headers = mergeHeaders [Some (default_headers cfg), Some (getHeaders (body_type b)),
                                                  Some (options_headers options)],
                      init_body = serialized\<rparr>)
                  (Some ''POST'') (w\<lparr>clock_reads := clock_reads w + 1\<rparr>)), w') \<and>
           fetch_calls w < fetch_calls w'"
  using getFromCache_unexpired [OF assms(5,7)] assms(1,2,3,6)
    handleRequest_calls_gt [OF assms(8), of "w\<lparr>clock_reads := clock_reads w + 1\<rparr>"]
  unfolding assms(4)
  by (simp add: post_def Let_def case_prod_beta saveToCache_fetch_calls)

lemma falsy_cached_value_is_a_miss_put:
  assumes "options_cacheEnabled cfg options"
    and "prepareBody (Some b) = Inr actualBody"
    and "serializeBody actualBody = Inr serialized"
    and "ckey = generateCacheKey (localeCompare rt) url ''PUT''
           (Some (HHeaders (mergeHeaders [Some (default_headers cfg), Some (getHeaders (body_type b)),
                                         Some (options_headers options)])))
           serialized"
    and "map_of (cache w) ckey = Some entry"
    and "\<not> truthy (entry_data entry)"
    and "\<not> (expiresAt entry \<noteq> 0 \<and> Date_now rt (clock_reads w) > expiresAt entry)"
    and "0 \<le> retry_count cfg"
  shows "\<exists>w'. put cfg rt url (Some b) options w =
           Inr (fst (handleRequest cfg
                  (fetch rt (toString url)
                     \<lparr>init_method = Some ''PUT'',
                      init_headers = mergeHeaders [Some (default_headers cfg), Some (getHeaders (body_type b)),
                                                  Some (options_headers options)],
                      init_body = serialized\<rparr>)
                  (Some ''PUT'') (w\<lparr>clock_reads := clock_reads w + 1\<rparr>)), w') \<and>
           fetch_calls w < fetch_calls w'"
  using getFromCache_unexpired [OF assms(5,7)] assms(1,2,3,6)
    handleRequest_calls_gt [OF assms(8), of "w\<lparr>clock_reads := clock_reads w + 1\<rparr>"]
  unfolding assms(4)
  by (simp add: put_def Let_def case_prod_beta saveToCache_fetch_calls)

lemma falsy_cached_value_is_a_miss_patch:
  assumes "options_cacheEnabled cfg options"
    and "prepareBody (Some b) = Inr actualBody"
    and "serializeBody actualBody = Inr serialized"
    and "ckey = generateCacheKey (localeCompare rt) url ''PATCH''
           (Some (HHeaders (mergeHeaders [Some (default_headers cfg), Some (getHeaders (body_type b)),
                                         Some (options_headers options)])))
           serialized"
    and "map_of (cache w) ckey = Some entry"
    and "\<not> truthy (entry_data entry)"
    and "\<not> (expiresAt entry \<noteq> 0 \<and> Date_now rt (clock_reads w) > expiresAt entry)"
    and "0 \<le> retry_count cfg"
  shows "\<exists>w'. patch cfg rt url (Some b) options w =
           Inr (fst (handleRequest cfg
                  (fetch rt (toString url)
                     \<lparr>init_method = Some ''PATCH'',
                      init_headers = mergeHeaders [Some (default_headers cfg), Some (getHeaders (body_type b)),
                                                  Some (options_headers options)],
                      init_body = serialized\<rparr>)
                  (Some ''PATCH'') (w\<lparr>clock_reads := clock_reads w + 1\<rparr>)), w') \<and>
           fetch_calls w < fetch_calls w'"
  using getFromCache_unexpired [OF assms(5,7)] assms(1,2,3,6)
    handleRequest_calls_gt [OF assms(8), of "w\<lparr>clock_reads := clock_reads w + 1\<rparr>"]
  unfolding assms(4)
  by (simp add: patch_def Let_def case_prod_beta saveToCache_fetch_calls)

end
